theory Spec2Isabelle
  imports Main
begin

section \<open>Strings\<close>

text \<open>
  A JavaScript string is a sequence of UTF-16 code units. The model uses \<^typ>\<open>string\<close>,
  so a character stands for a code unit below 256 (ASCII and Latin-1); every table and
  every separator of the server lies in that range.
\<close>

definition is_ws :: "char \<Rightarrow> bool" where
  \<comment> \<open>WhiteSpace and LineTerminator below 256: TAB, LF, VT, FF, CR, SP, NBSP. This is
      what \<open>String.prototype.trim\<close> removes and what \<open>\s\<close> matches.\<close>
  "is_ws c = (of_char c \<in> {9, 10, 11, 12, 13, 32, 160 :: nat})"

definition is_line_terminator :: "char \<Rightarrow> bool" where
  \<comment> \<open>the code units that \<open>.\<close> of a regular expression does not match\<close>
  "is_line_terminator c = (of_char c \<in> {10, 13 :: nat})"

definition is_digit :: "char \<Rightarrow> bool" where
  \<comment> \<open>\<open>\d\<close>\<close>
  "is_digit c = (48 \<le> (of_char c :: nat) \<and> (of_char c :: nat) \<le> 57)"

definition trim :: "string \<Rightarrow> string" where
  "trim s = rev (dropWhile is_ws (rev (dropWhile is_ws s)))"

fun split :: "char \<Rightarrow> string \<Rightarrow> string list" where
  \<comment> \<open>\<open>s.split(sep)\<close> for a separator of one character\<close>
  "split sep [] = [[]]"
| "split sep (c # cs) =
     (if c = sep then [] # split sep cs
      else (case split sep cs of [] \<Rightarrow> [[c]] | p # ps \<Rightarrow> (c # p) # ps))"

definition toLowerCase_char :: "char \<Rightarrow> char" where
  \<comment> \<open>A-Z, and the Latin-1 capitals U+00C0..U+00DE without the multiplication sign\<close>
  "toLowerCase_char c =
     (let n = (of_char c :: nat) in
      if (65 \<le> n \<and> n \<le> 90) \<or> (192 \<le> n \<and> n \<le> 222 \<and> n \<noteq> 215) then char_of (n + 32) else c)"

definition toLowerCase :: "string \<Rightarrow> string" where
  "toLowerCase s = map toLowerCase_char s"

fun startsWith :: "string \<Rightarrow> string \<Rightarrow> bool" where
  "startsWith s [] = True"
| "startsWith [] (p # ps) = False"
| "startsWith (c # cs) (p # ps) = (c = p \<and> startsWith cs ps)"

fun includes_str :: "string \<Rightarrow> string \<Rightarrow> bool" where
  \<comment> \<open>\<open>s.includes(t)\<close>\<close>
  "includes_str [] t = (t = [])"
| "includes_str (c # cs) t = (startsWith (c # cs) t \<or> includes_str cs t)"

function show_nat :: "nat \<Rightarrow> string" where
  \<comment> \<open>a non-negative integer inside a template literal\<close>
  "show_nat n = (if n < 10 then [char_of (48 + n)] else show_nat (n div 10) @ [char_of (48 + n mod 10)])"
  by pat_completeness auto
termination
  by (relation "measure id") auto

declare show_nat.simps [simp del]

section \<open>The test-step markup generator\<close>

definition xml_entities :: "(char \<times> string) list" where
  \<open>xml_entities =
     [(CHR ''<'', ''&lt;''), (CHR ''>'', ''&gt;''), (CHR ''&'', ''&amp;''),
      (CHR 0x27, ''&apos;''), (CHR ''"'', ''&quot;'')]\<close>

definition escapeXml_char :: "char \<Rightarrow> string" where
  \<comment> \<open>the replacement callback: \<open>c => table[c] || c\<close>, called on the characters
      that the class \<open>[<>&'"]\<close> matches\<close>
  \<open>escapeXml_char c =
     (if c \<in> {CHR ''<'', CHR ''>'', CHR ''&'', CHR 0x27, CHR ''"''}
      then (case map_of xml_entities c of Some e \<Rightarrow> e | None \<Rightarrow> [c])
      else [c])\<close>

definition escapeXml :: "string \<Rightarrow> string" where
  "escapeXml s = concat (map escapeXml_char s)"

definition step_match :: "string \<Rightarrow> string option" where
  \<comment> \<open>Capture group 2 of \<open>/^(\d+)\.\s*(.+)$/\<close> on a string without LF, or \<open>None\<close>
      when the expression does not match. The digits are followed by a period, so
      \<open>\d+\<close> takes all the leading digits; \<open>\s*\<close> is greedy, and giving back white
      space only lengthens what \<open>.+\<close> has to match up to the end, so the expression
      matches iff what follows the longest run of white space is not empty and has no
      line terminator, and group 2 is that rest.\<close>
  "step_match s =
     (let ds = takeWhile is_digit s; r = dropWhile is_digit s in
      if ds = [] then None
      else (case r of
              [] \<Rightarrow> None
            | c # r' \<Rightarrow>
                if c \<noteq> CHR ''.'' then None
                else (let t = dropWhile is_ws r' in
                      if t \<noteq> [] \<and> \<not> list_ex is_line_terminator t then Some t else None)))"

definition placeholder :: string where
  "placeholder = ''Verify step completes successfully''"

definition step_and_expected :: "string \<Rightarrow> string \<times> string option" where
  \<comment> \<open>\<open>const [stepPart, expectedPart] = line.split("|").map(s => s.trim())\<close>;
      \<open>split\<close> never returns the empty array, so the last case is never taken\<close>
  "step_and_expected line =
     (case map trim (split (CHR ''|'') line) of
        s # e # _ \<Rightarrow> (s, Some e)
      | [s] \<Rightarrow> (s, None)
      | [] \<Rightarrow> ([], None))"

definition step_text :: "string \<Rightarrow> string" where
  "step_text line =
     (let stepPart = fst (step_and_expected line) in
      case step_match stepPart of Some g \<Rightarrow> g | None \<Rightarrow> stepPart)"

definition expected_text :: "string \<Rightarrow> string" where
  \<comment> \<open>\<open>expectedPart || "Verify step completes successfully"\<close>: the empty string is falsy\<close>
  "expected_text line =
     (case snd (step_and_expected line) of
        None \<Rightarrow> placeholder
      | Some e \<Rightarrow> if e = [] then placeholder else e)"

definition step_xml :: "nat \<Rightarrow> string \<Rightarrow> string" where
  \<comment> \<open>what one iteration with index \<open>i\<close> appends\<close>
  \<open>step_xml i line =
     ''<step id="'' @ show_nat (i + 1) @ ''" type="ActionStep"><parameterizedString isformatted="true">''
     @ escapeXml (step_text line)
     @ ''</parameterizedString><parameterizedString isformatted="true">''
     @ escapeXml (expected_text line)
     @ ''</parameterizedString></step>''\<close>

function steps_loop :: "string list \<Rightarrow> nat \<Rightarrow> string \<Rightarrow> string" where
  "steps_loop lines i xml =
     (if i < length lines then steps_loop lines (i + 1) (xml @ step_xml i (lines ! i)) else xml)"
  by pat_completeness auto
termination
  by (relation "measure (\<lambda>(lines, i, xml). length lines - i)") auto

declare steps_loop.simps [simp del]

definition step_lines :: "string \<Rightarrow> string list" where
  \<comment> \<open>\<open>steps.split("\n").filter(l => l.trim())\<close>\<close>
  "step_lines steps = filter (\<lambda>l. trim l \<noteq> []) (split CHR ''\<newline>'' steps)"

definition convertStepsToXml :: "string \<Rightarrow> string" where
  \<open>convertStepsToXml steps =
     (let lines = step_lines steps in
      steps_loop lines 0 (''<steps id="0" last="'' @ show_nat (length lines) @ ''">'') @ ''</steps>'')\<close>

text \<open>
  Two definitions that only the statements below use: the decoder of the five entities,
  and "everything after the first bar" of a line.
\<close>

fun unescapeXml :: "string \<Rightarrow> string" where
  "unescapeXml [] = []"
| "unescapeXml (c # cs) =
     (if c \<noteq> CHR ''&'' then c # unescapeXml cs
      else if startsWith cs ''lt;'' then CHR ''<'' # unescapeXml (drop 3 cs)
      else if startsWith cs ''gt;'' then CHR ''>'' # unescapeXml (drop 3 cs)
      else if startsWith cs ''amp;'' then CHR ''&'' # unescapeXml (drop 4 cs)
      else if startsWith cs ''apos;'' then CHR 0x27 # unescapeXml (drop 5 cs)
      else if startsWith cs ''quot;'' then CHR 0x22 # unescapeXml (drop 5 cs)
      else c # unescapeXml cs)"

definition after_first_bar :: "string \<Rightarrow> string" where
  "after_first_bar line = tl (dropWhile (\<lambda>c. c \<noteq> CHR ''|'') line)"

section \<open>The authorization header\<close>

text \<open>
  \<open>Buffer.from(str)\<close> is the UTF-8 encoding of the string and \<open>toString("base64")\<close> the
  base64 encoding of RFC 4648 with padding. A byte is a natural number below 256.
\<close>

definition utf8_char :: "char \<Rightarrow> nat list" where
  "utf8_char c =
     (let n = (of_char c :: nat) in if n < 128 then [n] else [192 + n div 64, 128 + n mod 64])"

definition utf8_encode :: "string \<Rightarrow> nat list" where
  "utf8_encode s = concat (map utf8_char s)"

definition base64_alphabet :: string where
  "base64_alphabet = ''ABCDEFGHIJKLMNOPQRSTUVWXYZabcdefghijklmnopqrstuvwxyz0123456789+/''"

definition b64 :: "nat \<Rightarrow> char" where
  "b64 i = base64_alphabet ! (i mod 64)"

fun base64_encode :: "nat list \<Rightarrow> string" where
  "base64_encode [] = []"
| "base64_encode [a] = [b64 (a div 4), b64 (a mod 4 * 16), CHR ''='', CHR ''='']"
| "base64_encode [a, b] =
     [b64 (a div 4), b64 (a mod 4 * 16 + b div 16), b64 (b mod 16 * 4), CHR ''='']"
| "base64_encode (a # b # c # r) =
     [b64 (a div 4), b64 (a mod 4 * 16 + b div 16), b64 (b mod 16 * 4 + c div 64), b64 (c mod 64)]
     @ base64_encode r"

definition getPatAuthHeader :: "string \<Rightarrow> string" where
  "getPatAuthHeader pat = ''Basic '' @ base64_encode (utf8_encode ('':'' @ pat))"

text \<open>The decoders, which the round trip is stated with.\<close>

fun index_of :: "'a \<Rightarrow> 'a list \<Rightarrow> nat option" where
  "index_of x [] = None"
| "index_of x (y # ys) = (if x = y then Some 0 else map_option Suc (index_of x ys))"

fun base64_decode :: "string \<Rightarrow> nat list option" where
  "base64_decode [] = Some []"
| "base64_decode (w # x # y # z # r) =
     (case (index_of w base64_alphabet, index_of x base64_alphabet) of
        (Some a, Some b) \<Rightarrow>
          if r = [] \<and> y = CHR ''='' \<and> z = CHR ''='' then Some [a * 4 + b div 16]
          else (case index_of y base64_alphabet of
                  None \<Rightarrow> None
                | Some c \<Rightarrow>
                    if r = [] \<and> z = CHR ''=''
                    then Some [a * 4 + b div 16, b mod 16 * 16 + c div 4]
                    else (case index_of z base64_alphabet of
                            None \<Rightarrow> None
                          | Some d \<Rightarrow>
                              map_option
                                (\<lambda>t. (a * 4 + b div 16) # (b mod 16 * 16 + c div 4) # (c mod 4 * 64 + d) # t)
                                (base64_decode r)))
      | _ \<Rightarrow> None)"
| "base64_decode _ = None"

fun utf8_decode :: "nat list \<Rightarrow> string option" where
  "utf8_decode [] = Some []"
| "utf8_decode (b # r) =
     (if b < 128 then map_option (\<lambda>t. char_of b # t) (utf8_decode r)
      else (case r of
              [] \<Rightarrow> None
            | c # r' \<Rightarrow>
                if (b = 194 \<or> b = 195) \<and> 128 \<le> c \<and> c < 192
                then map_option (\<lambda>t. char_of ((b - 192) * 64 + (c - 128)) # t) (utf8_decode r')
                else None))"

section \<open>Values, argument bags and the downstream service\<close>

datatype json =
    JUndefined | JNull | JBool bool | JNum int | JStr string
  | JDate string \<comment> \<open>\<open>new Date(s)\<close>\<close>
  | JNative \<comment> \<open>a function or built-in object, not JSON data\<close>
  | JArr "json list" | JObj "(string \<times> json) list"

fun truthy :: "json \<Rightarrow> bool" where
  "truthy JUndefined = False"
| "truthy JNull = False"
| "truthy (JBool b) = b"
| "truthy (JNum n) = (n \<noteq> 0)"
| "truthy (JStr s) = (s \<noteq> [])"
| "truthy _ = True"

definition get_prop :: "string \<Rightarrow> json \<Rightarrow> json" where
  \<comment> \<open>\<open>v?.k\<close> on data\<close>
  "get_prop k v = (case v of JObj fs \<Rightarrow> (case map_of fs k of Some x \<Rightarrow> x | None \<Rightarrow> JUndefined) | _ \<Rightarrow> JUndefined)"

definition str_prop :: "string \<Rightarrow> json \<Rightarrow> string option" where
  \<comment> \<open>a property that the SDK interface declares as \<open>k?: string\<close>\<close>
  "str_prop k v = (case get_prop k v of JStr s \<Rightarrow> Some s | _ \<Rightarrow> None)"

definition jstr :: "string option \<Rightarrow> json" where
  "jstr s = (case s of None \<Rightarrow> JUndefined | Some x \<Rightarrow> JStr x)"

definition jnum :: "int option \<Rightarrow> json" where
  "jnum n = (case n of None \<Rightarrow> JUndefined | Some x \<Rightarrow> JNum x)"

definition truthy_str :: "string option \<Rightarrow> bool" where
  \<comment> \<open>\<open>if (s)\<close> for a string argument: absent and empty are falsy\<close>
  "truthy_str s = (case s of None \<Rightarrow> False | Some x \<Rightarrow> x \<noteq> [])"

definition show_int :: "int \<Rightarrow> string" where
  "show_int i = (if i < 0 then CHR ''-'' # show_nat (nat (- i)) else show_nat (nat i))"

definition js_slice :: "int \<Rightarrow> int \<Rightarrow> 'a list \<Rightarrow> 'a list" where
  \<comment> \<open>\<open>xs.slice(start, stop)\<close> for integers: a negative index counts from the end\<close>
  "js_slice start stop xs =
     (let len = int (length xs);
          k = (if start < 0 then max (len + start) 0 else min start len);
          fin = (if stop < 0 then max (len + stop) 0 else min stop len)
      in take (nat (fin - k)) (drop (nat k) xs))"

text \<open>
  The argument bag of a call, with the types that the input schemas of the catalog
  declare. A property that a tool does not compute with is in \<open>others\<close>. An optional or
  missing property is \<open>None\<close>.
\<close>

record work_item_update =
  wi_id :: json
  wi_updates :: json

record iteration_entry =
  it_iterationName :: json
  it_startDate :: "string option"
  it_finishDate :: "string option"
  it_identifier :: json
  it_path :: json

record args =
  projectNameFilter :: "string option"
  repoNameFilter :: "string option"
  top_arg :: "int option"
  skip :: "int option"
  status :: "string option"
  expand :: "string option"
  repositoryId :: "string option"
  project :: "string option"
  workItems :: "work_item_update list option"
  childIds :: "int list option"
  iterations :: "iteration_entry list option"
  steps :: "string option"
  sourceBranchName :: "string option"
  sourceCommitId :: "string option"
  branchName :: "string option"
  targetId :: "int option"
  linkType :: "string option"
  destinationPath :: "string option"
  artifactName :: "string option"
  path :: "string option"
  searchText :: "string option"
  others :: "(string \<times> json) list"

definition arg :: "args \<Rightarrow> string \<Rightarrow> json" where
  \<comment> \<open>a property that is passed on as it is\<close>
  "arg a k = (case map_of (others a) k of Some v \<Rightarrow> v | None \<Rightarrow> JUndefined)"

definition no_args :: args where
  \<comment> \<open>the empty bag \<open>{}\<close>\<close>
  "no_args = \<lparr>projectNameFilter = None, repoNameFilter = None, top_arg = None, skip = None,
     status = None, expand = None, repositoryId = None, project = None, workItems = None,
     childIds = None, iterations = None, steps = None, sourceBranchName = None,
     sourceCommitId = None, branchName = None, targetId = None, linkType = None,
     destinationPath = None, artifactName = None, path = None, searchText = None, others = []\<rparr>"

text \<open>
  An exception is an \<open>Error\<close> instance with its message, or any other thrown value. An
  operation of the outside returns or throws; when it is awaited, its promise is fulfilled
  or rejected.
\<close>

datatype thrown = ErrorObj string | NotAnError

datatype 'a outcome = Return 'a | Throw thrown

text \<open>
  Piping a readable stream into a file ends with one of three events: \<open>end\<close> of the
  readable stream, \<open>error\<close> of the readable stream, or \<open>error\<close> of the write stream, when
  the file cannot be opened or written.
\<close>

datatype pipe_end = Ended | ReadError thrown | WriteError thrown

text \<open>
  A request to the outside: the name of the SDK method, \<open>fetch\<close> or stream operation as
  the source writes it, the bag the branch works on, and the arguments that the branch
  computes itself. The service answers a request knowing the requests issued before it,
  so its answers may depend on what earlier calls have changed.
\<close>

datatype request = Req string args "json list"

record response =
  resp_ok :: bool
  resp_etag :: "string option"
  resp_text :: "string outcome"
  resp_json :: "json outcome"

record env =
  json_op :: "request list \<Rightarrow> request \<Rightarrow> json outcome"
  list_op :: "request list \<Rightarrow> request \<Rightarrow> json list outcome"
  http_op :: "request list \<Rightarrow> request \<Rightarrow> response outcome"
  stream_op :: "request list \<Rightarrow> request \<Rightarrow> string outcome"
  pipe_op :: "request list \<Rightarrow> request \<Rightarrow> pipe_end"
  stringify :: "json \<Rightarrow> string"
  type_error :: "string \<Rightarrow> string"
  resolve_join :: "string \<Rightarrow> string \<Rightarrow> string"
  serverUrl :: string
  orgName :: string

text \<open>
  \<open>json_op\<close> answers an operation whose value the branch serialises or passes on,
  \<open>list_op\<close> one that returns an array, \<open>http_op\<close> a \<open>fetch\<close>, \<open>stream_op\<close> the reading of
  a stream to its end, \<open>pipe_op\<close> the piping of a stream into a file. \<open>stringify v\<close> is
  \<open>JSON.stringify(v, null, 2)\<close>, \<open>type_error e\<close> the message of the \<open>TypeError\<close> that the
  engine raises at the expression \<open>e\<close>, and \<open>resolve_join d f\<close> is \<open>join(resolve(d), f)\<close> of
  the path module.

  The run of an \<open>async\<close> function has one of three ends. It returns a value, and its
  promise is fulfilled. It throws, and its promise is rejected: a \<open>catch\<close> around the
  \<open>await\<close> of the promise receives the exception. Or an exception is raised outside the
  promise, by an event emitter that emits \<open>error\<close> while no listener is registered for
  it: Node raises it as an uncaught exception, no \<open>catch\<close> of the program receives it,
  the process ends and the promise is never settled.

  A handler is a function of the requests issued so far; it extends the list by the
  requests it issues.
\<close>

datatype 'a completion = Normal 'a | Abrupt thrown | Uncaught thrown

type_synonym 'a prog = "request list \<Rightarrow> 'a completion \<times> request list"

definition ret :: "'a \<Rightarrow> 'a prog" where
  "ret x = (\<lambda>h. (Normal x, h))"

definition throw :: "thrown \<Rightarrow> 'a prog" where
  "throw e = (\<lambda>h. (Abrupt e, h))"

definition bind :: "'a prog \<Rightarrow> ('a \<Rightarrow> 'b prog) \<Rightarrow> 'b prog" where
  \<comment> \<open>\<open>const x = await m; ...\<close>\<close>
  "bind m f =
     (\<lambda>h. case m h of
        (Normal x, h') \<Rightarrow> f x h'
      | (Abrupt e, h') \<Rightarrow> (Abrupt e, h')
      | (Uncaught e, h') \<Rightarrow> (Uncaught e, h'))"

fun await :: "'a outcome \<Rightarrow> 'a completion" where
  \<comment> \<open>\<open>await p\<close>: the value of a fulfilled promise, the exception of a rejected one\<close>
  "await (Return x) = Normal x"
| "await (Throw e) = Abrupt e"

definition call :: "(request list \<Rightarrow> request \<Rightarrow> 'a outcome) \<Rightarrow> request \<Rightarrow> 'a prog" where
  "call ep r = (\<lambda>h. (await (ep h r), h @ [r]))"

definition settle :: "'a outcome \<Rightarrow> 'a prog" where
  \<comment> \<open>awaiting a value that is already determined\<close>
  "settle x = (\<lambda>h. (await x, h))"

definition pipe :: "env \<Rightarrow> request \<Rightarrow> unit prog" where
  \<comment> \<open>\<open>await new Promise((res, rej) => { stream.pipe(writeStream); stream.on("end", res);
      stream.on("error", rej); })\<close>: \<open>end\<close> and \<open>error\<close> of the readable stream settle the
      promise; the write stream has no \<open>error\<close> listener, so its \<open>error\<close> is uncaught\<close>
  "pipe e r =
     (\<lambda>h. (case pipe_op e h r of
              Ended \<Rightarrow> Normal ()
            | ReadError err \<Rightarrow> Abrupt err
            | WriteError err \<Rightarrow> Uncaught err,
            h @ [r]))"

fun for_of :: "('a \<Rightarrow> json prog) \<Rightarrow> 'a list \<Rightarrow> json list \<Rightarrow> json list prog" where
  \<comment> \<open>\<open>for (const x of xs) { const v = await body(x); results.push(v); }\<close>\<close>
  "for_of body [] results = ret results"
| "for_of body (x # xs) results = bind (body x) (\<lambda>v. for_of body xs (results @ [v]))"

section \<open>The response envelope\<close>

record content_item =
  ctype :: string
  ctext :: string

record envelope =
  content :: "content_item list"
  isError :: "bool option"

definition text_result :: "string \<Rightarrow> envelope" where
  \<comment> \<open>\<open>{ content: [{ type: "text", text: t }] }\<close>\<close>
  "text_result t = \<lparr>content = [\<lparr>ctype = ''text'', ctext = t\<rparr>], isError = None\<rparr>"

definition error_result :: "string \<Rightarrow> envelope" where
  \<comment> \<open>\<open>{ content: [{ type: "text", text: t }], isError: true }\<close>\<close>
  "error_result t = \<lparr>content = [\<lparr>ctype = ''text'', ctext = t\<rparr>], isError = Some True\<rparr>"

section \<open>Local computations of the branches\<close>

subsection \<open>Name filters\<close>

definition name_matches :: "string \<Rightarrow> json \<Rightarrow> bool" where
  \<comment> \<open>\<open>p.name?.toLowerCase().includes(f.toLowerCase())\<close>; without a name the chain is
      \<open>undefined\<close>, which is falsy\<close>
  "name_matches f p =
     (case str_prop ''name'' p of None \<Rightarrow> False
      | Some n \<Rightarrow> includes_str (toLowerCase n) (toLowerCase f))"

definition filter_by_name :: "string option \<Rightarrow> json list \<Rightarrow> json list" where
  \<comment> \<open>\<open>if (f) xs = xs.filter(...)\<close>\<close>
  "filter_by_name f xs =
     (case f of None \<Rightarrow> xs | Some t \<Rightarrow> if t = [] then xs else filter (name_matches t) xs)"

definition list_projects_result :: "args \<Rightarrow> json list \<Rightarrow> json list" where
  "list_projects_result a projects = filter_by_name (projectNameFilter a) projects"

definition list_repos_result :: "args \<Rightarrow> json list \<Rightarrow> json list" where
  \<comment> \<open>\<open>top = 100, skip = 0\<close> by default; \<open>repos.slice(skip, skip + top)\<close> after the filter\<close>
  "list_repos_result a repos =
     (let top = (case top_arg a of None \<Rightarrow> 100 | Some t \<Rightarrow> t);
          skip = (case skip a of None \<Rightarrow> 0 | Some s \<Rightarrow> s)
      in js_slice skip (skip + top) (filter_by_name (repoNameFilter a) repos))"

subsection \<open>Lookup tables\<close>

text \<open>
  \<open>table[key]\<close> on an object literal with numeric values is the declared value of an own
  key, a member inherited from \<open>Object.prototype\<close> for one of its names, and \<open>undefined\<close>
  otherwise. \<open>x || d\<close> replaces a falsy \<open>x\<close>, that is \<open>undefined\<close> and \<open>0\<close>.
\<close>

datatype lookup = Declared int | Inherited | Undefined

definition object_prototype_names :: "string list" where
  "object_prototype_names =
     [''constructor'', ''__defineGetter__'', ''__defineSetter__'', ''hasOwnProperty'',
      ''__lookupGetter__'', ''__lookupSetter__'', ''isPrototypeOf'', ''propertyIsEnumerable'',
      ''toString'', ''valueOf'', ''__proto__'', ''toLocaleString'']"

definition js_lookup :: "(string \<times> int) list \<Rightarrow> string \<Rightarrow> lookup" where
  "js_lookup table k =
     (case map_of table k of
        Some v \<Rightarrow> Declared v
      | None \<Rightarrow> if k \<in> set object_prototype_names then Inherited else Undefined)"

definition or_default :: "lookup \<Rightarrow> int \<Rightarrow> lookup" where
  "or_default x d =
     (case x of Declared v \<Rightarrow> if v = 0 then Declared d else Declared v
      | Inherited \<Rightarrow> Inherited
      | Undefined \<Rightarrow> Declared d)"

definition lookup_json :: "lookup \<Rightarrow> json" where
  "lookup_json x = (case x of Declared v \<Rightarrow> JNum v | Inherited \<Rightarrow> JNative | Undefined \<Rightarrow> JUndefined)"

definition key_of :: "string option \<Rightarrow> string" where
  \<comment> \<open>the property key of a string or of \<open>undefined\<close>\<close>
  "key_of s = (case s of None \<Rightarrow> ''undefined'' | Some k \<Rightarrow> k)"

definition pr_list_statusMap :: "(string \<times> int) list" where
  "pr_list_statusMap = [(''Abandoned'', 2), (''Active'', 1), (''All'', 4), (''Completed'', 3), (''NotSet'', 0)]"

definition pr_update_statusMap :: "(string \<times> int) list" where
  "pr_update_statusMap = [(''active'', 1), (''abandoned'', 2), (''completed'', 3)]"

definition thread_statusMap :: "(string \<times> int) list" where
  "thread_statusMap = [(''active'', 1), (''fixed'', 2), (''wontFix'', 3), (''closed'', 4), (''pending'', 6)]"

definition workitem_expandMap :: "(string \<times> int) list" where
  "workitem_expandMap = [(''all'', 4), (''fields'', 1), (''links'', 2), (''none'', 0), (''relations'', 3)]"

definition query_expandMap :: "(string \<times> int) list" where
  "query_expandMap = [(''all'', 2), (''clauses'', 1), (''minimal'', 0), (''none'', 0), (''wiql'', 1)]"

definition stageUpdateMap :: "(string \<times> int) list" where
  "stageUpdateMap = [(''Retry'', 1), (''Cancel'', 2)]"

definition pr_list_status :: "string option \<Rightarrow> lookup" where
  \<comment> \<open>\<open>status = "Active"\<close> by default, then \<open>statusMap[status] || 1\<close>\<close>
  "pr_list_status s =
     or_default (js_lookup pr_list_statusMap (case s of None \<Rightarrow> ''Active'' | Some k \<Rightarrow> k)) 1"

definition thread_create_status :: "string option \<Rightarrow> lookup" where
  \<comment> \<open>\<open>statusMap[status] || 1\<close>\<close>
  "thread_create_status s = or_default (js_lookup thread_statusMap (key_of s)) 1"

definition thread_update_status :: "string option \<Rightarrow> lookup" where
  \<comment> \<open>\<open>statusMap[status]\<close>\<close>
  "thread_update_status s = js_lookup thread_statusMap (key_of s)"

definition pr_update_status :: "string \<Rightarrow> lookup" where
  \<comment> \<open>\<open>statusMap[status]\<close>, evaluated when \<open>status\<close> is truthy\<close>
  "pr_update_status k = js_lookup pr_update_statusMap k"

definition workitem_expand :: "string option \<Rightarrow> lookup" where
  \<comment> \<open>\<open>expandMap[expand]\<close>\<close>
  "workitem_expand s = js_lookup workitem_expandMap (key_of s)"

definition query_expand :: "string option \<Rightarrow> lookup" where
  "query_expand s = js_lookup query_expandMap (key_of s)"

definition stage_state :: "string option \<Rightarrow> lookup" where
  \<comment> \<open>\<open>stageUpdateMap[status] || 1\<close>\<close>
  "stage_state s = or_default (js_lookup stageUpdateMap (key_of s)) 1"

section \<open>The branches of the dispatcher\<close>

text \<open>
  Most branches take an API client from the connection, await one SDK call whose
  arguments come from the bag, and return the serialised value. The request of such a
  branch carries the bag; the arguments that a branch computes are listed with it.
  For the branches given by \<open>sdk_branch\<close> the local preparation of the
  arguments is not modelled separately: an exception raised while preparing them counts
  as an exception of the request, which reaches the same \<open>catch\<close>.
\<close>

definition getApi :: "env \<Rightarrow> string \<Rightarrow> args \<Rightarrow> json prog" where
  \<comment> \<open>\<open>await connection.getCoreApi()\<close> and the like\<close>
  "getApi e api a = call (json_op e) (Req api a [])"

definition sdk_call :: "string \<Rightarrow> string \<Rightarrow> json list \<Rightarrow> env \<Rightarrow> args \<Rightarrow> envelope prog" where
  "sdk_call api op actuals e a =
     bind (getApi e api a) (\<lambda>_.
     bind (call (json_op e) (Req op a actuals)) (\<lambda>v.
     ret (text_result (stringify e v))))"

definition sdk_branch :: "string \<Rightarrow> string \<Rightarrow> env \<Rightarrow> args \<Rightarrow> envelope prog" where
  "sdk_branch api op e a = sdk_call api op [] e a"

definition fetch_json :: "string \<Rightarrow> json list \<Rightarrow> env \<Rightarrow> args \<Rightarrow> envelope prog" where
  \<comment> \<open>\<open>const r = await fetch(...); const v = await r.json();\<close> and the serialised value\<close>
  "fetch_json what actuals e a =
     bind (call (http_op e) (Req what a actuals)) (\<lambda>r.
     bind (settle (resp_json r)) (\<lambda>v.
     ret (text_result (stringify e v))))"

definition fetch_text :: "string \<Rightarrow> json list \<Rightarrow> env \<Rightarrow> args \<Rightarrow> envelope prog" where
  \<comment> \<open>\<open>const r = await fetch(...)\<close> and \<open>await r.text()\<close> as the text\<close>
  "fetch_text what actuals e a =
     bind (call (http_op e) (Req what a actuals)) (\<lambda>r.
     bind (settle (resp_text r)) (\<lambda>t.
     ret (text_result t)))"

definition normalize_path :: "string \<Rightarrow> string" where
  "normalize_path p = (if startsWith p ''/'' then p else ''/'' @ p)"

definition endsWith :: "string \<Rightarrow> string \<Rightarrow> bool" where
  "endsWith s t = startsWith (rev s) (rev t)"

fun findIndex :: "('a \<Rightarrow> bool) \<Rightarrow> 'a list \<Rightarrow> nat option" where
  \<comment> \<open>\<open>None\<close> is the index -1\<close>
  "findIndex p [] = None"
| "findIndex p (x # xs) = (if p x then Some 0 else map_option Suc (findIndex p xs))"

definition elems :: "json \<Rightarrow> json list" where
  "elems v = (case v of JArr xs \<Rightarrow> xs | _ \<Rightarrow> [])"

definition add_op :: "string \<Rightarrow> json \<Rightarrow> json" where
  \<comment> \<open>\<open>{ op: "add", path: p, value: v }\<close>\<close>
  "add_op p v = JObj [(''op'', JStr ''add''), (''path'', JStr p), (''value'', v)]"

subsection \<open>Core and repositories\<close>

definition core_list_projects :: "env \<Rightarrow> args \<Rightarrow> envelope prog" where
  "core_list_projects e a =
     bind (getApi e ''connection.getCoreApi'' a) (\<lambda>_.
     bind (call (list_op e) (Req ''coreApi.getProjects'' a [])) (\<lambda>projects.
     ret (text_result (stringify e (JArr (list_projects_result a projects))))))"

definition repo_list_repos_by_project :: "env \<Rightarrow> args \<Rightarrow> envelope prog" where
  "repo_list_repos_by_project e a =
     bind (getApi e ''connection.getGitApi'' a) (\<lambda>_.
     bind (call (list_op e) (Req ''gitApi.getRepositories'' a [])) (\<lambda>repos.
     ret (text_result (stringify e (JArr (list_repos_result a repos))))))"

definition is_head_ref :: "json \<Rightarrow> bool" where
  \<comment> \<open>\<open>b.name?.startsWith("refs/heads/")\<close>\<close>
  "is_head_ref b = (case str_prop ''name'' b of None \<Rightarrow> False | Some n \<Rightarrow> startsWith n ''refs/heads/'')"

definition branch_short_name :: "json \<Rightarrow> json" where
  \<comment> \<open>\<open>b.name?.replace("refs/heads/", "")\<close> on a name that starts with the prefix\<close>
  "branch_short_name b =
     (case str_prop ''name'' b of None \<Rightarrow> JUndefined | Some n \<Rightarrow> JStr (drop (length ''refs/heads/'') n))"

definition top_or :: "int \<Rightarrow> args \<Rightarrow> int" where
  \<comment> \<open>\<open>top = d\<close> in the destructuring\<close>
  "top_or d a = (case top_arg a of None \<Rightarrow> d | Some t \<Rightarrow> t)"

definition repo_list_branches_by_repo :: "env \<Rightarrow> args \<Rightarrow> envelope prog" where
  "repo_list_branches_by_repo e a =
     bind (getApi e ''connection.getGitApi'' a) (\<lambda>_.
     bind (call (list_op e) (Req ''gitApi.getRefs'' a [JStr ''heads/''])) (\<lambda>branches.
     ret (text_result (stringify e
       (JArr (js_slice 0 (top_or 100 a) (map branch_short_name (filter is_head_ref branches))))))))"

definition repo_list_my_branches_by_repo :: "env \<Rightarrow> args \<Rightarrow> envelope prog" where
  "repo_list_my_branches_by_repo e a =
     bind (getApi e ''connection.getGitApi'' a) (\<lambda>_.
     bind (call (list_op e) (Req ''gitApi.getRefs'' a [JStr ''heads/''])) (\<lambda>branches.
     ret (text_result (stringify e (JArr (js_slice 0 (top_or 100 a) (filter is_head_ref branches)))))))"

definition repo_create_branch :: "env \<Rightarrow> args \<Rightarrow> envelope prog" where
  "repo_create_branch e a =
     (let src = (case sourceBranchName a of None \<Rightarrow> ''main'' | Some s \<Rightarrow> s);
          finish = (\<lambda>commitId.
            bind (call (json_op e) (Req ''gitApi.updateRefs'' a
                    [JArr [JObj [(''name'', JStr (''refs/heads/'' @ key_of (branchName a))),
                                 (''newObjectId'', commitId),
                                 (''oldObjectId'', JStr ''0000000000000000000000000000000000000000'')]]]))
              (\<lambda>result. ret (text_result (stringify e result))))
      in bind (getApi e ''connection.getGitApi'' a) (\<lambda>_.
         if truthy_str (sourceCommitId a) then finish (jstr (sourceCommitId a))
         else bind (call (list_op e) (Req ''gitApi.getRefs'' a [JStr (''heads/'' @ src)])) (\<lambda>refs.
           let objectId = (case find (\<lambda>r. str_prop ''name'' r = Some (''refs/heads/'' @ src)) refs of
                             None \<Rightarrow> JUndefined | Some r \<Rightarrow> get_prop ''objectId'' r)
           in if \<not> truthy objectId
              then ret (error_result (''Source branch '' @ [CHR 0x27] @ src @ [CHR 0x27] @ '' not found''))
              else finish objectId)))"

definition repo_list_pull_requests_by_repo_or_project :: "env \<Rightarrow> args \<Rightarrow> envelope prog" where
  "repo_list_pull_requests_by_repo_or_project e a =
     (let top = top_or 100 a;
          skip = (case skip a of None \<Rightarrow> 0 | Some s \<Rightarrow> s);
          criteria = JObj [(''status'', lookup_json (pr_list_status (status a)))];
          done = (\<lambda>prs. ret (text_result (stringify e prs)))
      in bind (getApi e ''connection.getGitApi'' a) (\<lambda>_.
         if truthy_str (repositoryId a)
         then bind (call (json_op e) (Req ''gitApi.getPullRequests'' a
                      [jstr (repositoryId a), criteria, jstr (project a), JUndefined, JNum skip, JNum top])) done
         else if truthy_str (project a)
         then bind (call (json_op e) (Req ''gitApi.getPullRequestsByProject'' a
                      [jstr (project a), criteria, JUndefined, JNum skip, JNum top])) done
         else ret (error_result ''Either repositoryId or project required'')))"

definition repo_update_pull_request :: "env \<Rightarrow> args \<Rightarrow> envelope prog" where
  \<comment> \<open>\<open>if (status) update.status = statusMap[status]\<close>\<close>
  "repo_update_pull_request e a =
     sdk_call ''connection.getGitApi'' ''gitApi.updatePullRequest''
       [JObj (if truthy_str (status a)
              then [(''status'', lookup_json (pr_update_status (key_of (status a))))] else [])] e a"

definition repo_create_pull_request_thread :: "env \<Rightarrow> args \<Rightarrow> envelope prog" where
  "repo_create_pull_request_thread e a =
     sdk_call ''connection.getGitApi'' ''gitApi.createThread''
       [JObj [(''comments'', JArr [JObj [(''content'', arg a ''content''), (''commentType'', JNum 1)]]),
              (''status'', lookup_json (thread_create_status (status a)))]] e a"

definition repo_update_pull_request_thread :: "env \<Rightarrow> args \<Rightarrow> envelope prog" where
  "repo_update_pull_request_thread e a =
     sdk_call ''connection.getGitApi'' ''gitApi.updateThread''
       [JObj [(''status'', lookup_json (thread_update_status (status a)))]] e a"

definition comment_matches :: "string \<Rightarrow> json \<Rightarrow> bool" where
  \<comment> \<open>\<open>c.comment?.toLowerCase().includes(searchText.toLowerCase())\<close>\<close>
  "comment_matches t c =
     (case str_prop ''comment'' c of None \<Rightarrow> False
      | Some m \<Rightarrow> includes_str (toLowerCase m) (toLowerCase t))"

definition repo_search_commits :: "env \<Rightarrow> args \<Rightarrow> envelope prog" where
  "repo_search_commits e a =
     bind (getApi e ''connection.getGitApi'' a) (\<lambda>_.
     bind (call (list_op e) (Req ''gitApi.getCommits'' a [JNum (top_or 100 a)])) (\<lambda>commits.
     ret (text_result (stringify e (JArr
       (if truthy_str (searchText a) then filter (comment_matches (key_of (searchText a))) commits
        else commits))))))"

subsection \<open>Work items\<close>

definition wit_get_work_item :: "env \<Rightarrow> args \<Rightarrow> envelope prog" where
  "wit_get_work_item e a =
     sdk_call ''connection.getWorkItemTrackingApi'' ''witApi.getWorkItem''
       [arg a ''id'', arg a ''fields'', JUndefined, lookup_json (workitem_expand (expand a)),
        jstr (project a)] e a"

definition wit_get_work_items_batch_by_ids :: "env \<Rightarrow> args \<Rightarrow> envelope prog" where
  "wit_get_work_items_batch_by_ids e a =
     sdk_call ''connection.getWorkItemTrackingApi'' ''witApi.getWorkItems''
       [arg a ''ids'', arg a ''fields'', JUndefined, lookup_json (workitem_expand (expand a)),
        JUndefined, jstr (project a)] e a"

definition wit_get_query :: "env \<Rightarrow> args \<Rightarrow> envelope prog" where
  "wit_get_query e a =
     sdk_call ''connection.getWorkItemTrackingApi'' ''witApi.getQuery''
       [jstr (project a), arg a ''queryPath'', lookup_json (query_expand (expand a)), JNum 1] e a"

text \<open>
  The four bulk branches: one awaited call for each element of the array, in order, the
  values collected in \<open>results\<close>. Iterating a missing array raises a \<open>TypeError\<close>.
\<close>

definition bulk :: "string \<Rightarrow> string \<Rightarrow> 'a list option \<Rightarrow> ('a \<Rightarrow> request)
    \<Rightarrow> env \<Rightarrow> args \<Rightarrow> envelope prog" where
  \<comment> \<open>\<open>api\<close> names the client taken from the connection, \<open>what\<close> the array, and \<open>mk x\<close>
      is the call issued for the element \<open>x\<close>\<close>
  "bulk api what xs mk e a =
     bind (getApi e api a) (\<lambda>_.
     case xs of
       None \<Rightarrow> throw (ErrorObj (type_error e what))
     | Some items \<Rightarrow>
         bind (for_of (\<lambda>x. call (json_op e) (mk x)) items []) (\<lambda>results.
         ret (text_result (stringify e (JArr results)))))"

definition update_request :: "args \<Rightarrow> work_item_update \<Rightarrow> request" where
  \<comment> \<open>\<open>witApi.updateWorkItem(null, item.updates, item.id)\<close>\<close>
  "update_request a item = Req ''witApi.updateWorkItem'' a [JNull, wi_updates item, wi_id item]"

definition wit_update_work_items_batch :: "env \<Rightarrow> args \<Rightarrow> envelope prog" where
  "wit_update_work_items_batch e a =
     bulk ''connection.getWorkItemTrackingApi'' ''workItems'' (workItems a) (update_request a) e a"

definition child_request :: "env \<Rightarrow> args \<Rightarrow> int \<Rightarrow> request" where
  \<comment> \<open>\<open>witApi.updateWorkItem(null, doc, parentId)\<close> with the link to the child\<close>
  "child_request e a childId =
     Req ''witApi.updateWorkItem'' a
       [JNull,
        JArr [add_op ''/relations/-''
                (JObj [(''rel'', JStr ''System.LinkTypes.Hierarchy-Forward''),
                       (''url'', JStr (serverUrl e @ ''/_apis/wit/workItems/'' @ show_int childId))])],
        arg a ''parentId'']"

definition wit_add_child_work_items :: "env \<Rightarrow> args \<Rightarrow> envelope prog" where
  "wit_add_child_work_items e a =
     bulk ''connection.getWorkItemTrackingApi'' ''childIds'' (childIds a) (child_request e a) e a"

definition js_date :: "string option \<Rightarrow> json" where
  \<comment> \<open>\<open>d ? new Date(d) : undefined\<close>\<close>
  "js_date d = (case d of None \<Rightarrow> JUndefined | Some s \<Rightarrow> if s = [] then JUndefined else JDate s)"

definition create_iteration_request :: "args \<Rightarrow> iteration_entry \<Rightarrow> request" where
  \<comment> \<open>\<open>TreeStructureGroup.Iterations\<close> is 1\<close>
  "create_iteration_request a it =
     Req ''witApi.createOrUpdateClassificationNode'' a
       [JObj [(''name'', it_iterationName it),
              (''attributes'', JObj [(''startDate'', js_date (it_startDate it)),
                                     (''finishDate'', js_date (it_finishDate it))])],
        jstr (project a), JNum 1]"

definition work_create_iterations :: "env \<Rightarrow> args \<Rightarrow> envelope prog" where
  "work_create_iterations e a =
     bulk ''connection.getWorkItemTrackingApi'' ''iterations'' (iterations a)
       (create_iteration_request a) e a"

definition assign_iteration_request :: "args \<Rightarrow> iteration_entry \<Rightarrow> request" where
  "assign_iteration_request a it =
     Req ''workApi.postTeamIteration'' a
       [JObj [(''id'', it_identifier it), (''path'', it_path it)],
        JObj [(''project'', jstr (project a)), (''team'', arg a ''team'')]]"

definition work_assign_iterations :: "env \<Rightarrow> args \<Rightarrow> envelope prog" where
  "work_assign_iterations e a =
     bulk ''connection.getWorkApi'' ''iterations'' (iterations a) (assign_iteration_request a) e a"

definition relation_matches :: "args \<Rightarrow> json \<Rightarrow> bool" where
  \<comment> \<open>\<open>r.url?.endsWith(`/${targetId}`) && r.rel?.includes(linkType)\<close>\<close>
  "relation_matches a r =
     ((case str_prop ''url'' r of None \<Rightarrow> False
       | Some u \<Rightarrow> endsWith u (''/'' @ (case targetId a of None \<Rightarrow> ''undefined'' | Some i \<Rightarrow> show_int i)))
      \<and> (case str_prop ''rel'' r of None \<Rightarrow> False
         | Some l \<Rightarrow> includes_str l (key_of (linkType a))))"

definition wit_work_item_unlink :: "env \<Rightarrow> args \<Rightarrow> envelope prog" where
  "wit_work_item_unlink e a =
     bind (getApi e ''connection.getWorkItemTrackingApi'' a) (\<lambda>_.
     bind (call (json_op e) (Req ''witApi.getWorkItem'' a [arg a ''sourceId'', JUndefined, JUndefined, JNum 3]))
       (\<lambda>workItem.
     let relations = (if truthy (get_prop ''relations'' workItem)
                      then elems (get_prop ''relations'' workItem) else [])
     in case findIndex (relation_matches a) relations of
          None \<Rightarrow> ret (error_result ''Link not found'')
        | Some idx \<Rightarrow>
            bind (call (json_op e) (Req ''witApi.updateWorkItem'' a
                    [JNull,
                     JArr [JObj [(''op'', JStr ''remove''), (''path'', JStr (''/relations/'' @ show_nat idx))]],
                     arg a ''sourceId'']))
              (\<lambda>updated. ret (text_result (stringify e updated)))))"

subsection \<open>Pipelines, wiki and search\<close>

definition pipelines_update_build_stage :: "env \<Rightarrow> args \<Rightarrow> envelope prog" where
  "pipelines_update_build_stage e a =
     fetch_text ''fetch PATCH build stage''
       [JObj [(''state'', lookup_json (stage_state (status a))),
              (''forceRetryAllJobs'', arg a ''forceRetryAllJobs'')]] e a"

text \<open>
  \<open>pipelines_download_artifact\<close> with a destination writes the stream to a file.
  \<open>mkdirSync\<close> and \<open>createWriteStream\<close> are calls that return or throw at once; the file
  is opened later, and a failure to open or to write it is the \<open>error\<close> event of the write
  stream, which \<open>pipe\<close> leaves uncaught.
\<close>

definition pipelines_download_artifact :: "env \<Rightarrow> args \<Rightarrow> envelope prog" where
  "pipelines_download_artifact e a =
     bind (getApi e ''connection.getBuildApi'' a) (\<lambda>_.
     bind (call (json_op e) (Req ''buildApi.getArtifactContentZip'' a [])) (\<lambda>stream.
     case destinationPath a of
       Some d \<Rightarrow>
         if d = [] then
           bind (call (stream_op e) (Req ''stream.on data'' a [])) (\<lambda>chunks.
           ret (text_result (''Artifact size: '' @ show_nat (length chunks) @ '' bytes (base64 not shown)'')))
         else
           (let filePath = resolve_join e d (key_of (artifactName a) @ ''.zip'') in
            bind (call (json_op e) (Req ''mkdirSync'' a [JStr d])) (\<lambda>_.
            bind (call (json_op e) (Req ''createWriteStream'' a [JStr filePath])) (\<lambda>_.
            bind (pipe e (Req ''stream.pipe'' a [JStr filePath])) (\<lambda>_.
            ret (text_result (''Artifact saved to '' @ filePath))))))
     | None \<Rightarrow>
         bind (call (stream_op e) (Req ''stream.on data'' a [])) (\<lambda>chunks.
         ret (text_result (''Artifact size: '' @ show_nat (length chunks) @ '' bytes (base64 not shown)'')))))"

definition wiki_get_page :: "env \<Rightarrow> args \<Rightarrow> envelope prog" where
  \<comment> \<open>\<open>path.startsWith("/")\<close> comes first and needs a path\<close>
  "wiki_get_page e a =
     (case path a of
        None \<Rightarrow> throw (ErrorObj (type_error e ''path.startsWith''))
      | Some p \<Rightarrow> fetch_json ''fetch wiki page'' [JStr (normalize_path p)] e a)"

definition wiki_get_page_content :: "env \<Rightarrow> args \<Rightarrow> envelope prog" where
  "wiki_get_page_content e a =
     (let p = (case path a of None \<Rightarrow> ''/'' | Some x \<Rightarrow> x) in
      bind (getApi e ''connection.getWikiApi'' a) (\<lambda>_.
      bind (call (json_op e) (Req ''wikiApi.getPageText'' a [JStr p])) (\<lambda>stream.
      if \<not> truthy stream then ret (error_result ''No content found'')
      else bind (call (stream_op e) (Req ''streamToString'' a [])) (\<lambda>content.
           ret (text_result content)))))"

definition wiki_create_or_update_page :: "env \<Rightarrow> args \<Rightarrow> envelope prog" where
  "wiki_create_or_update_page e a =
     (case path a of
        None \<Rightarrow> throw (ErrorObj (type_error e ''path.startsWith''))
      | Some p \<Rightarrow>
          bind (call (http_op e) (Req ''fetch PUT wiki page'' a [JStr (normalize_path p), arg a ''etag''])) (\<lambda>response.
          if resp_ok response
          then bind (settle (resp_json response)) (\<lambda>v. ret (text_result (stringify e v)))
          else
            (let failed = bind (settle (resp_text response)) (\<lambda>t. ret (error_result t)) in
             bind (call (http_op e) (Req ''fetch GET wiki page'' a [JStr (normalize_path p)])) (\<lambda>getResp.
             if resp_ok getResp \<and> truthy_str (resp_etag getResp)
             then bind (call (http_op e) (Req ''fetch PUT wiki page'' a
                          [JStr (normalize_path p), jstr (resp_etag getResp)])) (\<lambda>updateResp.
                  if resp_ok updateResp
                  then bind (settle (resp_json updateResp)) (\<lambda>v. ret (text_result (stringify e v)))
                  else failed)
             else failed))))"

subsection \<open>Test plans and iterations\<close>

definition optional_op :: "string \<Rightarrow> json \<Rightarrow> json list" where
  \<comment> \<open>\<open>if (v) doc.push({ op: "add", path: p, value: v })\<close>\<close>
  "optional_op p v = (if truthy v then [add_op p v] else [])"

definition testplan_create_test_case :: "env \<Rightarrow> args \<Rightarrow> envelope prog" where
  "testplan_create_test_case e a =
     bind (getApi e ''connection.getWorkItemTrackingApi'' a) (\<lambda>_.
     let doc = [add_op ''/fields/System.Title'' (arg a ''title'')]
           @ (case steps a of None \<Rightarrow> []
              | Some s \<Rightarrow> if s = [] then []
                         else [add_op ''/fields/Microsoft.VSTS.TCM.Steps'' (JStr (convertStepsToXml s))])
           @ optional_op ''/fields/Microsoft.VSTS.Common.Priority'' (arg a ''priority'')
           @ optional_op ''/fields/System.AreaPath'' (arg a ''areaPath'')
           @ optional_op ''/fields/System.IterationPath'' (arg a ''iterationPath'')
     in bind (call (json_op e) (Req ''witApi.createWorkItem'' a
                [JObj [], JArr doc, jstr (project a), JStr ''Test Case'']))
          (\<lambda>testCase. ret (text_result (stringify e testCase))))"

definition testplan_update_test_case_steps :: "env \<Rightarrow> args \<Rightarrow> envelope prog" where
  "testplan_update_test_case_steps e a =
     bind (getApi e ''connection.getWorkItemTrackingApi'' a) (\<lambda>_.
     case steps a of
       None \<Rightarrow> throw (ErrorObj (type_error e ''steps.split''))
     | Some s \<Rightarrow>
         bind (call (json_op e) (Req ''witApi.updateWorkItem'' a
                 [JObj [], JArr [add_op ''/fields/Microsoft.VSTS.TCM.Steps'' (JStr (convertStepsToXml s))],
                  arg a ''id'']))
           (\<lambda>testCase. ret (text_result (stringify e testCase))))"

definition work_list_iterations :: "env \<Rightarrow> args \<Rightarrow> envelope prog" where
  \<comment> \<open>\<open>TreeNodeStructureType.Iteration\<close> is 1\<close>
  "work_list_iterations e a =
     bind (getApi e ''connection.getWorkItemTrackingApi'' a) (\<lambda>_.
     bind (call (list_op e) (Req ''witApi.getClassificationNodes'' a [])) (\<lambda>nodes.
     ret (text_result (stringify e (JArr (filter (\<lambda>n. get_prop ''structureType'' n = JNum 1) nodes))))))"

section \<open>The catalog and the dispatcher\<close>

definition catalog_names :: "string list" where
  \<comment> \<open>the \<open>name\<close> of each descriptor that \<open>getAllToolDefinitions\<close> returns, in its order\<close>
  "catalog_names =
    [''core_list_project_teams'', ''core_list_projects'', ''core_get_identity_ids'',
     ''repo_list_repos_by_project'', ''repo_get_repo_by_name_or_id'',
     ''repo_list_branches_by_repo'', ''repo_list_my_branches_by_repo'',
     ''repo_get_branch_by_name'', ''repo_create_branch'',
     ''repo_list_pull_requests_by_repo_or_project'', ''repo_get_pull_request_by_id'',
     ''repo_create_pull_request'', ''repo_update_pull_request'',
     ''repo_update_pull_request_reviewers'', ''repo_list_pull_request_threads'',
     ''repo_list_pull_request_thread_comments'', ''repo_create_pull_request_thread'',
     ''repo_update_pull_request_thread'', ''repo_reply_to_comment'', ''repo_search_commits'',
     ''repo_list_pull_requests_by_commits'', ''wit_get_work_item'',
     ''wit_get_work_items_batch_by_ids'', ''wit_create_work_item'', ''wit_update_work_item'',
     ''wit_update_work_items_batch'', ''wit_my_work_items'', ''wit_list_backlogs'',
     ''wit_list_backlog_work_items'', ''wit_list_work_item_comments'',
     ''wit_add_work_item_comment'', ''wit_list_work_item_revisions'',
     ''wit_get_work_items_for_iteration'', ''wit_add_child_work_items'',
     ''wit_work_items_link'', ''wit_work_item_unlink'', ''wit_link_work_item_to_pull_request'',
     ''wit_add_artifact_link'', ''wit_get_work_item_type'', ''wit_get_query'',
     ''wit_get_query_results_by_id'', ''pipelines_get_builds'',
     ''pipelines_get_build_changes'', ''pipelines_get_build_definitions'',
     ''pipelines_get_build_definition_revisions'', ''pipelines_get_build_log'',
     ''pipelines_get_build_log_by_id'', ''pipelines_get_build_status'',
     ''pipelines_update_build_stage'', ''pipelines_create_pipeline'', ''pipelines_get_run'',
     ''pipelines_list_runs'', ''pipelines_run_pipeline'', ''pipelines_list_artifacts'',
     ''pipelines_download_artifact'', ''wiki_list_wikis'', ''wiki_get_wiki'',
     ''wiki_list_pages'', ''wiki_get_page'', ''wiki_get_page_content'',
     ''wiki_create_or_update_page'', ''search_code'', ''search_wiki'', ''search_workitem'',
     ''testplan_list_test_plans'', ''testplan_create_test_plan'',
     ''testplan_list_test_suites'', ''testplan_create_test_suite'',
     ''testplan_list_test_cases'', ''testplan_create_test_case'',
     ''testplan_update_test_case_steps'', ''testplan_add_test_cases_to_suite'',
     ''testplan_show_test_results_from_build_id'', ''advsec_get_alerts'',
     ''advsec_get_alert_details'', ''work_list_team_iterations'', ''work_list_iterations'',
     ''work_create_iterations'', ''work_assign_iterations'', ''work_get_team_capacity'',
     ''work_update_team_capacity'', ''work_get_iteration_capacities'']"

definition branches :: "(string \<times> (env \<Rightarrow> args \<Rightarrow> envelope prog)) list" where
  \<comment> \<open>the \<open>case\<close> labels of the \<open>switch\<close> in \<open>handleToolCall\<close> with their bodies, in its order\<close>
  "branches =
    [(''core_list_project_teams'', sdk_branch ''connection.getCoreApi'' ''coreApi.getTeams''),
     (''core_list_projects'', core_list_projects),
     (''core_get_identity_ids'', fetch_json ''fetch identities'' []),
     (''repo_list_repos_by_project'', repo_list_repos_by_project),
     (''repo_get_repo_by_name_or_id'', sdk_branch ''connection.getGitApi'' ''gitApi.getRepository''),
     (''repo_list_branches_by_repo'', repo_list_branches_by_repo),
     (''repo_list_my_branches_by_repo'', repo_list_my_branches_by_repo),
     (''repo_get_branch_by_name'', sdk_branch ''connection.getGitApi'' ''gitApi.getBranch''),
     (''repo_create_branch'', repo_create_branch),
     (''repo_list_pull_requests_by_repo_or_project'', repo_list_pull_requests_by_repo_or_project),
     (''repo_get_pull_request_by_id'', sdk_branch ''connection.getGitApi'' ''gitApi.getPullRequest''),
     (''repo_create_pull_request'', sdk_branch ''connection.getGitApi'' ''gitApi.createPullRequest''),
     (''repo_update_pull_request'', repo_update_pull_request),
     (''repo_update_pull_request_reviewers'', sdk_branch ''connection.getGitApi'' ''gitApi.createPullRequestReviewer''),
     (''repo_list_pull_request_threads'', sdk_branch ''connection.getGitApi'' ''gitApi.getThreads''),
     (''repo_list_pull_request_thread_comments'', sdk_branch ''connection.getGitApi'' ''gitApi.getComments''),
     (''repo_create_pull_request_thread'', repo_create_pull_request_thread),
     (''repo_update_pull_request_thread'', repo_update_pull_request_thread),
     (''repo_reply_to_comment'', sdk_branch ''connection.getGitApi'' ''gitApi.createComment''),
     (''repo_search_commits'', repo_search_commits),
     (''repo_list_pull_requests_by_commits'', sdk_branch ''connection.getGitApi'' ''gitApi.getPullRequestQuery''),
     (''wit_get_work_item'', wit_get_work_item),
     (''wit_get_work_items_batch_by_ids'', wit_get_work_items_batch_by_ids),
     (''wit_create_work_item'', sdk_branch ''connection.getWorkItemTrackingApi'' ''witApi.createWorkItem''),
     (''wit_update_work_item'', sdk_branch ''connection.getWorkItemTrackingApi'' ''witApi.updateWorkItem''),
     (''wit_update_work_items_batch'', wit_update_work_items_batch),
     (''wit_my_work_items'', sdk_branch ''connection.getWorkItemTrackingApi'' ''witApi.queryByWiql''),
     (''wit_list_backlogs'', sdk_branch ''connection.getWorkApi'' ''workApi.getBacklogs''),
     (''wit_list_backlog_work_items'', sdk_branch ''connection.getWorkApi'' ''workApi.getBacklogLevelWorkItems''),
     (''wit_list_work_item_comments'', sdk_branch ''connection.getWorkItemTrackingApi'' ''witApi.getComments''),
     (''wit_add_work_item_comment'', sdk_branch ''connection.getWorkItemTrackingApi'' ''witApi.addComment''),
     (''wit_list_work_item_revisions'', sdk_branch ''connection.getWorkItemTrackingApi'' ''witApi.getRevisions''),
     (''wit_get_work_items_for_iteration'', sdk_branch ''connection.getWorkApi'' ''workApi.getIterationWorkItems''),
     (''wit_add_child_work_items'', wit_add_child_work_items),
     (''wit_work_items_link'', sdk_branch ''connection.getWorkItemTrackingApi'' ''witApi.updateWorkItem''),
     (''wit_work_item_unlink'', wit_work_item_unlink),
     (''wit_link_work_item_to_pull_request'', sdk_branch ''connection.getWorkItemTrackingApi'' ''witApi.updateWorkItem''),
     (''wit_add_artifact_link'', sdk_branch ''connection.getWorkItemTrackingApi'' ''witApi.updateWorkItem''),
     (''wit_get_work_item_type'', sdk_branch ''connection.getWorkItemTrackingApi'' ''witApi.getWorkItemType''),
     (''wit_get_query'', wit_get_query),
     (''wit_get_query_results_by_id'', sdk_branch ''connection.getWorkItemTrackingApi'' ''witApi.queryById''),
     (''pipelines_get_builds'', sdk_branch ''connection.getBuildApi'' ''buildApi.getBuilds''),
     (''pipelines_get_build_changes'', sdk_branch ''connection.getBuildApi'' ''buildApi.getBuildChanges''),
     (''pipelines_get_build_definitions'', sdk_branch ''connection.getBuildApi'' ''buildApi.getDefinitions''),
     (''pipelines_get_build_definition_revisions'', sdk_branch ''connection.getBuildApi'' ''buildApi.getDefinitionRevisions''),
     (''pipelines_get_build_log'', sdk_branch ''connection.getBuildApi'' ''buildApi.getBuildLogs''),
     (''pipelines_get_build_log_by_id'', sdk_branch ''connection.getBuildApi'' ''buildApi.getBuildLogLines''),
     (''pipelines_get_build_status'', sdk_branch ''connection.getBuildApi'' ''buildApi.getBuildReport''),
     (''pipelines_update_build_stage'', pipelines_update_build_stage),
     (''pipelines_create_pipeline'', sdk_branch ''connection.getPipelinesApi'' ''pipelinesApi.createPipeline''),
     (''pipelines_get_run'', sdk_branch ''connection.getPipelinesApi'' ''pipelinesApi.getRun''),
     (''pipelines_list_runs'', sdk_branch ''connection.getPipelinesApi'' ''pipelinesApi.listRuns''),
     (''pipelines_run_pipeline'', sdk_branch ''connection.getPipelinesApi'' ''pipelinesApi.runPipeline''),
     (''pipelines_list_artifacts'', sdk_branch ''connection.getBuildApi'' ''buildApi.getArtifacts''),
     (''pipelines_download_artifact'', pipelines_download_artifact),
     (''wiki_list_wikis'', sdk_branch ''connection.getWikiApi'' ''wikiApi.getAllWikis''),
     (''wiki_get_wiki'', sdk_branch ''connection.getWikiApi'' ''wikiApi.getWiki''),
     (''wiki_list_pages'', sdk_branch ''connection.getWikiApi'' ''wikiApi.getPagesBatch''),
     (''wiki_get_page'', wiki_get_page),
     (''wiki_get_page_content'', wiki_get_page_content),
     (''wiki_create_or_update_page'', wiki_create_or_update_page),
     (''search_code'', fetch_text ''fetch POST codesearchresults'' []),
     (''search_wiki'', fetch_text ''fetch POST wikisearchresults'' []),
     (''search_workitem'', fetch_text ''fetch POST workitemsearchresults'' []),
     (''testplan_list_test_plans'', sdk_branch ''connection.getTestPlanApi'' ''testPlanApi.getTestPlans''),
     (''testplan_create_test_plan'', sdk_branch ''connection.getTestPlanApi'' ''testPlanApi.createTestPlan''),
     (''testplan_list_test_suites'', sdk_branch ''connection.getTestPlanApi'' ''testPlanApi.getTestSuitesForPlan''),
     (''testplan_create_test_suite'', sdk_branch ''connection.getTestPlanApi'' ''testPlanApi.createTestSuite''),
     (''testplan_list_test_cases'', sdk_branch ''connection.getTestPlanApi'' ''testPlanApi.getTestCaseList''),
     (''testplan_create_test_case'', testplan_create_test_case),
     (''testplan_update_test_case_steps'', testplan_update_test_case_steps),
     (''testplan_add_test_cases_to_suite'', sdk_branch ''connection.getTestApi'' ''testApi.addTestCasesToSuite''),
     (''testplan_show_test_results_from_build_id'', sdk_branch ''connection.getTestResultsApi'' ''testResultsApi.getTestResultDetailsForBuild''),
     (''advsec_get_alerts'', sdk_branch ''connection.getAlertApi'' ''alertApi.getAlerts''),
     (''advsec_get_alert_details'', sdk_branch ''connection.getAlertApi'' ''alertApi.getAlert''),
     (''work_list_team_iterations'', sdk_branch ''connection.getWorkApi'' ''workApi.getTeamIterations''),
     (''work_list_iterations'', work_list_iterations),
     (''work_create_iterations'', work_create_iterations),
     (''work_assign_iterations'', work_assign_iterations),
     (''work_get_team_capacity'', sdk_branch ''connection.getWorkApi'' ''workApi.getCapacitiesWithIdentityRefAndTotals''),
     (''work_update_team_capacity'', sdk_branch ''connection.getWorkApi'' ''workApi.updateCapacityWithIdentityRef''),
     (''work_get_iteration_capacities'', sdk_branch ''connection.getWorkApi'' ''workApi.getTotalIterationCapacities'')]"

definition case_labels :: "string list" where
  "case_labels = map fst branches"

definition handleToolCall :: "env \<Rightarrow> string \<Rightarrow> args \<Rightarrow> envelope prog" where
  \<comment> \<open>the first \<open>case\<close> whose label is the name, and \<open>default\<close> when there is none\<close>
  "handleToolCall e name a =
     (case map_of branches name of
        Some body \<Rightarrow> body e a
      | None \<Rightarrow> ret (error_result (''Unknown tool: '' @ name)))"

definition error_message :: "thrown \<Rightarrow> string" where
  \<comment> \<open>\<open>error instanceof Error ? error.message : "Unknown error occurred"\<close>\<close>
  "error_message err = (case err of ErrorObj m \<Rightarrow> m | NotAnError \<Rightarrow> ''Unknown error occurred'')"

definition try_catch :: "'a prog \<Rightarrow> (thrown \<Rightarrow> 'a prog) \<Rightarrow> 'a prog" where
  \<comment> \<open>\<open>try { return await m; } catch (err) { ... }\<close>\<close>
  "try_catch m handler =
     (\<lambda>h. case m h of
        (Normal x, h') \<Rightarrow> (Normal x, h')
      | (Abrupt err, h') \<Rightarrow> handler err h'
      | (Uncaught err, h') \<Rightarrow> (Uncaught err, h'))"

definition call_tool :: "env \<Rightarrow> 'c outcome \<Rightarrow> string \<Rightarrow> args option \<Rightarrow> envelope prog" where
  \<comment> \<open>the handler of \<open>CallToolRequestSchema\<close>; \<open>connection\<close> is what awaiting
      \<open>connectionProvider()\<close> gives, inside the \<open>try\<close>, and \<open>args || {}\<close> is the bag\<close>
  "call_tool e connection name a =
     try_catch
       (bind (settle connection) (\<lambda>_.
        handleToolCall e name (case a of None \<Rightarrow> no_args | Some x \<Rightarrow> x)))
       (\<lambda>err. ret (error_result (''Error: '' @ error_message err)))"

definition single_text :: "envelope \<Rightarrow> bool" where
  \<comment> \<open>the content array has one element, and its type is \<open>text\<close>\<close>
  "single_text r = (case content r of [c] \<Rightarrow> ctype c = ''text'' | _ \<Rightarrow> False)"

definition well_formed :: "envelope completion \<Rightarrow> bool" where
  \<comment> \<open>an envelope that is returned has one content item, of type \<open>text\<close>\<close>
  "well_formed r = (case r of Normal v \<Rightarrow> single_text v | Abrupt err \<Rightarrow> True | Uncaught err \<Rightarrow> True)"

definition settled_well :: "envelope completion \<Rightarrow> bool" where
  \<comment> \<open>the promise is settled, and an envelope that is returned has one content item, of
      type \<open>text\<close>\<close>
  "settled_well r = (case r of Normal v \<Rightarrow> single_text v | Abrupt err \<Rightarrow> True | Uncaught err \<Rightarrow> False)"

section \<open>The connection provider\<close>

record AuthConfig =
  organizationUrl :: string
  personalAccessToken :: string

text \<open>
  A \<open>WebApi\<close> object is identified by the number of its construction: two handles are the
  same object iff they have the same number. The state of the client is its private
  field \<open>clientPromise\<close>; the model adds the number of calls of \<open>createPatClient\<close>, the
  number of \<open>WebApi\<close> objects constructed, the promises handed to callers that have not
  resumed yet, and the values that resumed callers have received.
\<close>

record WebApi =
  instance_no :: nat
  api_url :: string
  api_token :: string

record AzureDevOpsClient =
  config :: AuthConfig
  clientPromise :: "WebApi outcome option"
  created :: nat
  constructed :: nat
  waiting :: "WebApi outcome list"
  received :: "WebApi outcome list"

definition createPatClient :: "AuthConfig \<Rightarrow> nat \<Rightarrow> WebApi outcome \<times> nat" where
  \<comment> \<open>an \<open>async\<close> function without \<open>await\<close>: its promise is settled when it returns\<close>
  "createPatClient cfg n =
     (if personalAccessToken cfg = [] then
        (Throw (ErrorObj ''Personal Access Token is required for authentication''), n)
      else if organizationUrl cfg = [] then
        (Throw (ErrorObj ''Organization URL is required''), n)
      else
        (Return \<lparr>instance_no = n, api_url = organizationUrl cfg, api_token = personalAccessToken cfg\<rparr>,
         Suc n))"

definition new_client :: "AuthConfig \<Rightarrow> AzureDevOpsClient" where
  \<comment> \<open>the constructor\<close>
  "new_client cfg = \<lparr>config = cfg, clientPromise = None, created = 0, constructed = 0,
     waiting = [], received = []\<rparr>"

definition getClient :: "AzureDevOpsClient \<Rightarrow> WebApi outcome \<times> AzureDevOpsClient" where
  \<comment> \<open>the synchronous part of a call: it runs to its \<open>return\<close> without interruption\<close>
  "getClient c =
     (case clientPromise c of
        None \<Rightarrow>
          (let (p, n) = createPatClient (config c) (constructed c) in
           (p, c\<lparr>clientPromise := Some p, created := Suc (created c), constructed := n\<rparr>))
      | Some p \<Rightarrow> (p, c))"

datatype event = Invoke | Resume

fun step :: "AzureDevOpsClient \<Rightarrow> event \<Rightarrow> AzureDevOpsClient" where
  \<comment> \<open>a caller invokes the accessor and waits for its promise, or the caller that has
      waited longest resumes with the value of its promise\<close>
  "step c Invoke = (let (p, c') = getClient c in c'\<lparr>waiting := waiting c' @ [p]\<rparr>)"
| "step c Resume =
     (case waiting c of [] \<Rightarrow> c | p # ps \<Rightarrow> c\<lparr>waiting := ps, received := received c @ [p]\<rparr>)"

definition run :: "AzureDevOpsClient \<Rightarrow> event list \<Rightarrow> AzureDevOpsClient" where
  "run c evs = foldl step c evs"

section \<open>An example environment\<close>

definition failing_at :: "nat \<Rightarrow> env" where
  \<comment> \<open>a service whose operations succeed, except that the request issued after \<open>n\<close>
      earlier ones fails with the message \<open>boom\<close>\<close>
  "failing_at n =
     \<lparr>json_op = (\<lambda>h r. if length h = n then Throw (ErrorObj ''boom'') else Return JNull),
      list_op = (\<lambda>h r. if length h = n then Throw (ErrorObj ''boom'') else Return []),
      http_op = (\<lambda>h r. Throw (ErrorObj ''fetch failed'')),
      stream_op = (\<lambda>h r. if length h = n then Throw (ErrorObj ''boom'') else Return []),
      pipe_op = (\<lambda>h r. if length h = n then ReadError (ErrorObj ''boom'') else Ended),
      stringify = (\<lambda>v. ''<json>''),
      type_error = (\<lambda>x. x @ '' is not iterable''),
      resolve_join = (\<lambda>d f. d @ ''/'' @ f),
      serverUrl = ''https://dev.azure.com/org'',
      orgName = ''org''\<rparr>"




definition example_config :: AuthConfig where
  "example_config = \<lparr>organizationUrl = ''https://dev.azure.com/org'', personalAccessToken = ''pat''\<rparr>"

definition example_api :: WebApi where
  "example_api = \<lparr>instance_no = 0, api_url = ''https://dev.azure.com/org'', api_token = ''pat''\<rparr>"


definition unwritable :: env where
  \<comment> \<open>a service whose operations succeed, on a disk where no file can be opened\<close>
  "unwritable = (failing_at 99)\<lparr>pipe_op := (\<lambda>h r. WriteError (ErrorObj ''ENOENT''))\<rparr>"

definition download_args :: args where
  "download_args = no_args\<lparr>artifactName := Some ''drop'', destinationPath := Some ''out''\<rparr>"

section \<open>Properties of the test-step markup generator\<close>

lemma split_not_Nil: "split sep s \<noteq> []"
  by (induction s) (auto split: list.splits)

lemma split_no_sep: "sep \<notin> set s \<Longrightarrow> split sep s = [s]"
  by (induction s) auto

lemma split_unfold:
  "split sep s = takeWhile (\<lambda>c. c \<noteq> sep) s #
     (case dropWhile (\<lambda>c. c \<noteq> sep) s of [] \<Rightarrow> [] | _ # r \<Rightarrow> split sep r)"
proof (induction s)
  case Nil
  show ?case by simp
next
  case (Cons c cs)
  show ?case
  proof (cases "c = sep")
    case True
    then show ?thesis by simp
  next
    case False
    then show ?thesis using Cons by simp
  qed
qed

lemma dropWhile_sep_Nil: "(dropWhile (\<lambda>c. c \<noteq> sep) s = []) = (sep \<notin> set s)"
  by (induction s) auto

lemma steps_loop_eq:
  "steps_loop lines i xml = xml @ concat (map (\<lambda>j. step_xml j (lines ! j)) [i..<length lines])"
proof (induction lines i xml rule: steps_loop.induct)
  case (1 lines i xml)
  show ?case
  proof (cases "i < length lines")
    case True
    then show ?thesis
      using "1.IH" [OF True] by (subst steps_loop.simps) (simp add: upt_conv_Cons)
  next
    case False
    then show ?thesis by (subst steps_loop.simps) simp
  qed
qed

lemma unescape_escape_char:
  "unescapeXml (escapeXml_char c @ r) = c # unescapeXml r"
  by (simp add: escapeXml_char_def xml_entities_def)

lemma unescape_escape: "unescapeXml (escapeXml s) = s"
  by (induction s) (simp_all add: escapeXml_def unescape_escape_char)

lemma escapeXml_char_raw: \<open>set (escapeXml_char c) \<inter> {CHR ''<'', CHR ''>'', CHR 0x27, CHR ''"''} = {}\<close>
  by (auto simp: escapeXml_char_def xml_entities_def)

lemma escapeXml_raw: \<open>set (escapeXml s) \<inter> {CHR ''<'', CHR ''>'', CHR 0x27, CHR ''"''} = {}\<close>
  using escapeXml_char_raw by (induction s) (auto simp: escapeXml_def)

lemma step_and_expected_eq:
  "step_and_expected line =
     (trim (takeWhile (\<lambda>c. c \<noteq> CHR ''|'') line),
      if CHR ''|'' \<in> set line
      then Some (trim (takeWhile (\<lambda>c. c \<noteq> CHR ''|'') (after_first_bar line)))
      else None)"
proof (cases "dropWhile (\<lambda>c. c \<noteq> CHR ''|'') line")
  case Nil
  then have ns: "CHR ''|'' \<notin> set line"
    using dropWhile_sep_Nil [of "CHR ''|''" line] by blast
  then have tw: "takeWhile (\<lambda>c. c \<noteq> CHR ''|'') line = line"
    by (induction line) auto
  show ?thesis
    by (subst tw) (simp add: step_and_expected_def split_no_sep ns)
next
  case (Cons b r)
  then have "CHR ''|'' \<in> set line" using dropWhile_sep_Nil [of "CHR ''|''" line] by auto
  moreover have "split CHR ''|'' line = takeWhile (\<lambda>c. c \<noteq> CHR ''|'') line # split CHR ''|'' r"
    by (subst split_unfold) (simp add: Cons)
  moreover have "split CHR ''|'' r = takeWhile (\<lambda>c. c \<noteq> CHR ''|'') r #
      (case dropWhile (\<lambda>c. c \<noteq> CHR ''|'') r of [] \<Rightarrow> [] | _ # r' \<Rightarrow> split CHR ''|'' r')"
    by (rule split_unfold)
  ultimately show ?thesis
    by (simp add: step_and_expected_def after_first_bar_def Cons)
qed

lemma step_match_strip:
  assumes "ds \<noteq> []" "list_all is_digit ds" "list_all is_ws ws" "t \<noteq> []" "\<not> is_ws (hd t)"
    "\<not> list_ex is_line_terminator t"
  shows "step_match (ds @ CHR ''.'' # ws @ t) = Some t"
proof -
  have nd: "\<not> is_digit CHR ''.''" by (simp add: is_digit_def)
  have tw: "takeWhile is_digit (ds @ CHR ''.'' # ws @ t) = ds"
    using assms(2) nd by (simp add: list_all_iff)
  have dw: "dropWhile is_digit (ds @ CHR ''.'' # ws @ t) = CHR ''.'' # ws @ t"
    using assms(2) nd by (simp add: list_all_iff)
  have dws: "dropWhile is_ws (ws @ t) = t"
    using assms(3,4,5) by (cases t) (simp_all add: dropWhile_append2 list_all_iff)
  show ?thesis
    using assms(1,4,5,6) hd_in_set [of t] by (auto simp: step_match_def tw dw dws Let_def)
qed

lemma step_match_no_digit: "s = [] \<or> \<not> is_digit (hd s) \<Longrightarrow> step_match s = None"
  by (cases s) (auto simp: step_match_def)

text \<open>
  C2. On the example of the specification the output has exactly the two step elements
  with ids 1 and 2, the ordinals are stripped and the expected texts are kept. For every
  input the output is the header, one step element per non-blank line in order, and the
  closing tag; a step element holds the step text and the expected text after
  \<open>escapeXml\<close>, which replaces each of the five special characters by its entity: the
  result has no raw \<open><\<close>, \<open>>\<close>, apostrophe or quote, and decoding the entities gives the
  text back. A line without a bar gets the placeholder as expected text.
\<close>

theorem convertStepsToXml_example_and_escaping:
  \<open>convertStepsToXml ''1. Click login|User sees dashboard\<newline>2. Enter bad password|Error shown''
     = ''<steps id="0" last="2"><step id="1" type="ActionStep"><parameterizedString isformatted="true">Click login</parameterizedString><parameterizedString isformatted="true">User sees dashboard</parameterizedString></step><step id="2" type="ActionStep"><parameterizedString isformatted="true">Enter bad password</parameterizedString><parameterizedString isformatted="true">Error shown</parameterizedString></step></steps>''
   \<and> convertStepsToXml input
       = ''<steps id="0" last="'' @ show_nat (length (step_lines input)) @ ''">''
         @ concat (map (\<lambda>i. step_xml i (step_lines input ! i)) [0..<length (step_lines input)])
         @ ''</steps>''
   \<and> step_xml i l
       = ''<step id="'' @ show_nat (i + 1) @ ''" type="ActionStep"><parameterizedString isformatted="true">''
         @ escapeXml (step_text l)
         @ ''</parameterizedString><parameterizedString isformatted="true">''
         @ escapeXml (expected_text l)
         @ ''</parameterizedString></step>''
   \<and> escapeXml (a @ b) = escapeXml a @ escapeXml b
   \<and> escapeXml ''<'' = ''&lt;'' \<and> escapeXml ''>'' = ''&gt;'' \<and> escapeXml ''&'' = ''&amp;''
   \<and> escapeXml [CHR 0x27] = ''&apos;'' \<and> escapeXml ''"'' = ''&quot;''
   \<and> set (escapeXml s) \<inter> {CHR ''<'', CHR ''>'', CHR 0x27, CHR ''"''} = {}
   \<and> unescapeXml (escapeXml s) = s
   \<and> (CHR ''|'' \<notin> set line \<longrightarrow> expected_text line = ''Verify step completes successfully'')\<close>
proof -
  have ex: \<open>convertStepsToXml ''1. Click login|User sees dashboard\<newline>2. Enter bad password|Error shown''
     = ''<steps id="0" last="2"><step id="1" type="ActionStep"><parameterizedString isformatted="true">Click login</parameterizedString><parameterizedString isformatted="true">User sees dashboard</parameterizedString></step><step id="2" type="ActionStep"><parameterizedString isformatted="true">Enter bad password</parameterizedString><parameterizedString isformatted="true">Error shown</parameterizedString></step></steps>''\<close>
    by code_simp
  have shape: \<open>convertStepsToXml input
       = ''<steps id="0" last="'' @ show_nat (length (step_lines input)) @ ''">''
         @ concat (map (\<lambda>i. step_xml i (step_lines input ! i)) [0..<length (step_lines input)])
         @ ''</steps>''\<close>
    by (simp add: convertStepsToXml_def Let_def steps_loop_eq)
  have app: "escapeXml (a @ b) = escapeXml a @ escapeXml b"
    by (simp add: escapeXml_def)
  have ents: \<open>escapeXml ''<'' = ''&lt;'' \<and> escapeXml ''>'' = ''&gt;'' \<and> escapeXml ''&'' = ''&amp;''
      \<and> escapeXml [CHR 0x27] = ''&apos;'' \<and> escapeXml ''"'' = ''&quot;''\<close>
    by (simp add: escapeXml_def escapeXml_char_def xml_entities_def)
  have nobar: "CHR ''|'' \<notin> set line \<longrightarrow> expected_text line = ''Verify step completes successfully''"
    by (simp add: expected_text_def step_and_expected_eq placeholder_def)
  show ?thesis
    using ex shape app ents nobar escapeXml_raw [of s] unescape_escape [of s]
    by (simp only: step_xml_def simp_thms)
qed

theorem convertStepsToXml_example_and_escaping_witness:
  "CHR ''|'' \<notin> set ''Do it'' \<and> expected_text ''Do it'' = ''Verify step completes successfully''"
  using convertStepsToXml_example_and_escaping [where line = "''Do it''" and input = "[]" and s = "[]" and a = "[]" and b = "[]" and i = 0 and l = "[]"]
  by simp

text \<open>
  C3, as the code has it. A line is split at every bar and the first two fields are
  used: the step part is the trimmed text before the first bar, the expected part the
  trimmed text between the first and the second bar, and what follows a second bar is
  dropped. Without a bar, or with an expected part that is empty after trimming, the
  expected text is the placeholder. A step part made of digits, a period, white space
  and a rest is replaced by the rest; a step part that does not begin with a digit is
  kept.
\<close>

theorem step_line_first_two_fields:
  "step_and_expected line =
     (trim (takeWhile (\<lambda>c. c \<noteq> CHR ''|'') line),
      if CHR ''|'' \<in> set line
      then Some (trim (takeWhile (\<lambda>c. c \<noteq> CHR ''|'') (after_first_bar line)))
      else None)
   \<and> expected_text line =
       (if CHR ''|'' \<in> set line \<and> trim (takeWhile (\<lambda>c. c \<noteq> CHR ''|'') (after_first_bar line)) \<noteq> []
        then trim (takeWhile (\<lambda>c. c \<noteq> CHR ''|'') (after_first_bar line))
        else ''Verify step completes successfully'')
   \<and> (trim (takeWhile (\<lambda>c. c \<noteq> CHR ''|'') line) = ds @ CHR ''.'' # ws @ t
        \<and> ds \<noteq> [] \<and> list_all is_digit ds \<and> list_all is_ws ws
        \<and> t \<noteq> [] \<and> \<not> is_ws (hd t) \<and> \<not> list_ex is_line_terminator t
      \<longrightarrow> step_text line = t)
   \<and> (trim (takeWhile (\<lambda>c. c \<noteq> CHR ''|'') line) = [] \<or> \<not> is_digit (hd (trim (takeWhile (\<lambda>c. c \<noteq> CHR ''|'') line)))
      \<longrightarrow> step_text line = trim (takeWhile (\<lambda>c. c \<noteq> CHR ''|'') line))"
proof -
  have e: "expected_text line =
       (if CHR ''|'' \<in> set line \<and> trim (takeWhile (\<lambda>c. c \<noteq> CHR ''|'') (after_first_bar line)) \<noteq> []
        then trim (takeWhile (\<lambda>c. c \<noteq> CHR ''|'') (after_first_bar line))
        else ''Verify step completes successfully'')"
    by (simp add: expected_text_def step_and_expected_eq placeholder_def)
  have s1: "trim (takeWhile (\<lambda>c. c \<noteq> CHR ''|'') line) = ds @ CHR ''.'' # ws @ t
        \<and> ds \<noteq> [] \<and> list_all is_digit ds \<and> list_all is_ws ws
        \<and> t \<noteq> [] \<and> \<not> is_ws (hd t) \<and> \<not> list_ex is_line_terminator t
      \<longrightarrow> step_text line = t"
    by (simp add: step_text_def step_and_expected_eq step_match_strip)
  have s2: "trim (takeWhile (\<lambda>c. c \<noteq> CHR ''|'') line) = [] \<or> \<not> is_digit (hd (trim (takeWhile (\<lambda>c. c \<noteq> CHR ''|'') line)))
      \<longrightarrow> step_text line = trim (takeWhile (\<lambda>c. c \<noteq> CHR ''|'') line)"
    by (auto simp: step_text_def step_and_expected_eq step_match_no_digit)
  show ?thesis
    using e s1 s2 step_and_expected_eq [of line] by blast
qed

theorem step_line_first_two_fields_witness:
  "trim (takeWhile (\<lambda>c. c \<noteq> CHR ''|'') ''12. Open page | Title shown |Fast'') = ''12'' @ CHR ''.'' # '' '' @ ''Open page''
   \<and> ''12'' \<noteq> [] \<and> list_all is_digit ''12'' \<and> list_all is_ws '' ''
   \<and> ''Open page'' \<noteq> [] \<and> \<not> is_ws (hd ''Open page'') \<and> \<not> list_ex is_line_terminator ''Open page''
   \<and> step_text ''12. Open page | Title shown |Fast'' = ''Open page''
   \<and> expected_text ''12. Open page | Title shown |Fast'' = ''Title shown''
   \<and> (''Do it'' = [] \<or> \<not> is_digit (hd ''Do it''))
   \<and> step_text ''Do it'' = ''Do it''"
proof -
  have h: "trim (takeWhile (\<lambda>c. c \<noteq> CHR ''|'') ''12. Open page | Title shown |Fast'') = ''12'' @ CHR ''.'' # '' '' @ ''Open page''
   \<and> ''12'' \<noteq> [] \<and> list_all is_digit ''12'' \<and> list_all is_ws '' ''
   \<and> ''Open page'' \<noteq> [] \<and> \<not> is_ws (hd ''Open page'') \<and> \<not> list_ex is_line_terminator ''Open page''"
    by (simp add: trim_def is_ws_def is_digit_def is_line_terminator_def)
  have e: "trim (takeWhile (\<lambda>c. c \<noteq> CHR ''|'') (after_first_bar ''12. Open page | Title shown |Fast'')) = ''Title shown''"
    by (simp add: trim_def is_ws_def after_first_bar_def)
  have d: "trim (takeWhile (\<lambda>c. c \<noteq> CHR ''|'') ''Do it'') = ''Do it'' \<and> \<not> is_digit (hd ''Do it'')"
    by (simp add: trim_def is_ws_def is_digit_def)
  show ?thesis
    using h e d
      step_line_first_two_fields [where line = "''12. Open page | Title shown |Fast''" and ds = "''12''" and ws = "'' ''" and t = "''Open page''"]
      step_line_first_two_fields [where line = "''Do it''" and ds = "''1''" and ws = "[]" and t = "''x''"]
    by simp
qed

text \<open>
  C3 as stated fails: on a line with two bars the expected text is not everything after
  the first bar.
\<close>

theorem expected_text_two_bars_counterexample:
  "expected_text ''Open page|Title shown|Fast'' = ''Title shown''
   \<and> after_first_bar ''Open page|Title shown|Fast'' = ''Title shown|Fast''"
  by (simp add: expected_text_def step_and_expected_def trim_def is_ws_def after_first_bar_def)

section \<open>Properties of the authorization header\<close>

lemma index_of_nth: "distinct xs \<Longrightarrow> i < length xs \<Longrightarrow> index_of (xs ! i) xs = Some i"
proof (induction xs arbitrary: i)
  case Nil
  then show ?case by simp
next
  case (Cons x xs)
  show ?case
  proof (cases i)
    case 0
    then show ?thesis by simp
  next
    case (Suc j)
    then have "xs ! j \<in> set xs" using Cons.prems by simp
    then have "xs ! j \<noteq> x" using Cons.prems by auto
    then show ?thesis using Suc Cons by simp
  qed
qed

lemma distinct_base64_alphabet: "distinct base64_alphabet"
  by (simp add: base64_alphabet_def)

lemma length_base64_alphabet: "length base64_alphabet = 64"
  by (simp add: base64_alphabet_def)

lemma index_of_b64: "i < 64 \<Longrightarrow> index_of (b64 i) base64_alphabet = Some i"
  by (simp add: b64_def index_of_nth distinct_base64_alphabet length_base64_alphabet)

lemma b64_not_pad: "b64 i \<noteq> CHR ''=''"
proof -
  have "b64 i \<in> set base64_alphabet"
    by (simp add: b64_def length_base64_alphabet)
  moreover have "CHR ''='' \<notin> set base64_alphabet"
    by (simp add: base64_alphabet_def)
  ultimately show ?thesis by auto
qed

lemma div_mult_add: "(y::nat) < k \<Longrightarrow> (x * k + y) div k = x"
  by simp

lemma mod_mult_add: "(y::nat) < k \<Longrightarrow> (x * k + y) mod k = y"
  by simp

lemma byte_parts:
  fixes a :: nat
  assumes "a < 256"
  shows "a div 4 < 64" "a div 16 < 16" "a div 64 < 4"
  using assms by (simp_all add: less_mult_imp_div_less)

lemma sextet_bounds:
  fixes a b c :: nat
  shows "a mod 4 * 16 < 64" "b < 256 \<Longrightarrow> a mod 4 * 16 + b div 16 < 64"
    "b mod 16 * 4 < 64" "c < 256 \<Longrightarrow> b mod 16 * 4 + c div 64 < 64" "c mod 64 < 64"
proof -
  have a: "a mod 4 < 4" and b: "b mod 16 < 16" by simp_all
  show "a mod 4 * 16 < 64" using a by linarith
  show "b mod 16 * 4 < 64" using b by linarith
  show "c mod 64 < 64" by simp
  show "b < 256 \<Longrightarrow> a mod 4 * 16 + b div 16 < 64"
    using a byte_parts(2) [of b] by linarith
  show "c < 256 \<Longrightarrow> b mod 16 * 4 + c div 64 < 64"
    using b byte_parts(3) [of c] by linarith
qed

lemma sextet_first:
  fixes a b :: nat
  shows "a div 4 * 4 + (a mod 4 * 16) div 16 = a"
    "b < 256 \<Longrightarrow> a div 4 * 4 + (a mod 4 * 16 + b div 16) div 16 = a"
proof -
  show "a div 4 * 4 + (a mod 4 * 16) div 16 = a" by simp
  show "b < 256 \<Longrightarrow> a div 4 * 4 + (a mod 4 * 16 + b div 16) div 16 = a"
    by (simp add: div_mult_add byte_parts(2))
qed

lemma sextet_second:
  fixes a b c :: nat
  shows "b < 256 \<Longrightarrow> (a mod 4 * 16 + b div 16) mod 16 * 16 + (b mod 16 * 4) div 4 = b"
    "b < 256 \<Longrightarrow> c < 256 \<Longrightarrow> (a mod 4 * 16 + b div 16) mod 16 * 16 + (b mod 16 * 4 + c div 64) div 4 = b"
proof -
  show "b < 256 \<Longrightarrow> (a mod 4 * 16 + b div 16) mod 16 * 16 + (b mod 16 * 4) div 4 = b"
    by (simp add: mod_mult_add byte_parts(2))
  show "b < 256 \<Longrightarrow> c < 256 \<Longrightarrow> (a mod 4 * 16 + b div 16) mod 16 * 16 + (b mod 16 * 4 + c div 64) div 4 = b"
    by (simp add: mod_mult_add div_mult_add byte_parts(2,3))
qed

lemma sextet_third:
  fixes b c :: nat
  shows "c < 256 \<Longrightarrow> (b mod 16 * 4 + c div 64) mod 4 * 64 + c mod 64 = c"
  by (simp add: mod_mult_add byte_parts(3))

lemma decode_quad:
  assumes "p < 64" "q < 64" "s < 64" "u < 64"
  shows "base64_decode (b64 p # b64 q # b64 s # b64 u # r) =
     map_option (\<lambda>t. (p * 4 + q div 16) # (q mod 16 * 16 + s div 4) # (s mod 4 * 64 + u) # t) (base64_decode r)"
  using assms by (simp add: index_of_b64 b64_not_pad)

lemma decode_pad1:
  assumes "p < 64" "q < 64" "s < 64"
  shows "base64_decode [b64 p, b64 q, b64 s, CHR ''=''] = Some [p * 4 + q div 16, q mod 16 * 16 + s div 4]"
  using assms by (simp add: index_of_b64 b64_not_pad)

lemma decode_pad2:
  assumes "p < 64" "q < 64"
  shows "base64_decode [b64 p, b64 q, CHR ''='', CHR ''=''] = Some [p * 4 + q div 16]"
  using assms by (simp add: index_of_b64 b64_not_pad)

lemma base64_roundtrip: "list_all (\<lambda>b. b < 256) bs \<Longrightarrow> base64_decode (base64_encode bs) = Some bs"
proof (induction bs rule: base64_encode.induct)
  case 1
  show ?case by simp
next
  case (2 a)
  then have a: "a < 256" by simp
  have "base64_decode (base64_encode [a]) = Some [a div 4 * 4 + (a mod 4 * 16) div 16]"
    by (simp only: base64_encode.simps decode_pad2 [OF byte_parts(1) [OF a] sextet_bounds(1)])
  then show ?case by (simp only: sextet_first(1))
next
  case (3 a b)
  then have a: "a < 256" and b: "b < 256" by simp_all
  have "base64_decode (base64_encode [a, b]) =
      Some [a div 4 * 4 + (a mod 4 * 16 + b div 16) div 16,
            (a mod 4 * 16 + b div 16) mod 16 * 16 + (b mod 16 * 4) div 4]"
    by (simp only: base64_encode.simps
        decode_pad1 [OF byte_parts(1) [OF a] sextet_bounds(2) [OF b] sextet_bounds(3)])
  then show ?case by (simp only: sextet_first(2) [OF b] sextet_second(1) [OF b])
next
  case (4 a b c r)
  then have a: "a < 256" and b: "b < 256" and c: "c < 256" and r: "list_all (\<lambda>b. b < 256) r"
    by simp_all
  have ih: "base64_decode (base64_encode r) = Some r" using "4.IH" r by simp
  have "base64_decode (base64_encode (a # b # c # r)) =
      map_option (\<lambda>t. (a div 4 * 4 + (a mod 4 * 16 + b div 16) div 16) #
                          ((a mod 4 * 16 + b div 16) mod 16 * 16 + (b mod 16 * 4 + c div 64) div 4) #
                          ((b mod 16 * 4 + c div 64) mod 4 * 64 + c mod 64) # t)
        (base64_decode (base64_encode r))"
    by (simp only: base64_encode.simps append.simps
        decode_quad [OF byte_parts(1) [OF a] sextet_bounds(2) [OF b] sextet_bounds(4) [OF c] sextet_bounds(5)])
  then show ?case
    by (simp only: ih sextet_first(2) [OF b] sextet_second(2) [OF b c] sextet_third [OF c]
        option.map append.simps)
qed

lemma utf8_char_bytes: "list_all (\<lambda>b. b < 256) (utf8_char c)"
proof -
  have "(of_char c :: nat) < 256" by simp
  then have "(of_char c :: nat) div 64 < 4" by (simp add: less_mult_imp_div_less)
  moreover have "(of_char c :: nat) mod 64 < 64" by simp
  ultimately have "192 + (of_char c :: nat) div 64 < 256" "128 + (of_char c :: nat) mod 64 < 256"
    by linarith+
  then show ?thesis by (simp add: utf8_char_def Let_def)
qed

lemma utf8_encode_bytes: "list_all (\<lambda>b. b < 256) (utf8_encode s)"
  by (induction s) (simp_all add: utf8_encode_def utf8_char_bytes)

lemma utf8_decode_char: "utf8_decode (utf8_char c @ r) = map_option (\<lambda>t. c # t) (utf8_decode r)"
proof -
  define n where "n = (of_char c :: nat)"
  have lt: "n < 256" by (simp add: n_def)
  have c: "char_of n = c" by (simp add: n_def)
  show ?thesis
  proof (cases "n < 128")
    case True
    then show ?thesis using c by (simp add: utf8_char_def n_def [symmetric])
  next
    case False
    then have "n div 64 = 2 \<or> n div 64 = 3" using lt by arith
    moreover have "(n div 64) * 64 + n mod 64 = n" by simp
    ultimately show ?thesis
      using False c by (auto simp: utf8_char_def n_def [symmetric])
  qed
qed

lemma utf8_roundtrip: "utf8_decode (utf8_encode s) = Some s"
  by (induction s) (simp_all add: utf8_encode_def utf8_decode_char)

text \<open>
  C8. The header is \<open>Basic\<close>, a space and a payload; decoding the payload as base64 and
  the bytes as UTF-8 gives the colon followed by the token. For the token \<open>abc\<close> the
  header is \<open>Basic OmFiYw==\<close>.
\<close>

theorem getPatAuthHeader_roundtrip:
  "take 6 (getPatAuthHeader pat) = ''Basic ''
   \<and> drop 6 (getPatAuthHeader pat) = base64_encode (utf8_encode ('':'' @ pat))
   \<and> Option.bind (base64_decode (drop 6 (getPatAuthHeader pat))) utf8_decode = Some ('':'' @ pat)
   \<and> getPatAuthHeader ''abc'' = ''Basic OmFiYw==''"
proof -
  have ex: "getPatAuthHeader ''abc'' = ''Basic OmFiYw==''"
    by (simp add: getPatAuthHeader_def utf8_encode_def utf8_char_def b64_def base64_alphabet_def)
  show ?thesis
    using ex by (simp add: getPatAuthHeader_def base64_roundtrip utf8_encode_bytes utf8_roundtrip)
qed

section \<open>Properties of the dispatcher\<close>

lemma case_labels_catalog: "case_labels = catalog_names"
  by (simp add: case_labels_def branches_def catalog_names_def)

lemma distinct_catalog_names: "distinct catalog_names"
  by (simp add: catalog_names_def)

lemma count_distinct: "distinct xs \<Longrightarrow> x \<in> set xs \<Longrightarrow> length (filter (\<lambda>y. y = x) xs) = 1"
  by (induction xs) (auto simp: filter_empty_conv)

lemma branch_found: "(map_of branches name \<noteq> None) = (name \<in> set case_labels)"
  by (simp add: case_labels_def map_of_eq_None_iff)

lemma wf_ret_text: "well_formed (fst (ret (text_result t) h))"
  by (simp add: well_formed_def single_text_def ret_def text_result_def)

lemma wf_ret_error: "well_formed (fst (ret (error_result t) h))"
  by (simp add: well_formed_def single_text_def ret_def error_result_def)

lemma wf_throw: "well_formed (fst (throw err h))"
  by (simp add: well_formed_def throw_def)

lemma wf_bind:
  assumes "\<And>x h'. well_formed (fst (f x h'))"
  shows "well_formed (fst (bind m f h))"
proof (cases "m h")
  case (Pair r h1)
  show ?thesis
  proof (cases r)
    case (Normal x)
    then show ?thesis using Pair assms [of x h1] by (simp add: bind_def)
  next
    case (Abrupt err)
    then show ?thesis using Pair by (simp add: bind_def well_formed_def)
  next
    case (Uncaught err)
    then show ?thesis using Pair by (simp add: bind_def well_formed_def)
  qed
qed

lemmas wf_rules = wf_ret_text wf_ret_error wf_throw wf_bind

lemma wf_sdk_call: "well_formed (fst (sdk_call api op xs e a h))"
  by (simp add: sdk_call_def wf_rules)

lemma wf_sdk_branch: "well_formed (fst (sdk_branch api op e a h))"
  by (simp add: sdk_branch_def wf_sdk_call)

lemma wf_fetch_json: "well_formed (fst (fetch_json w xs e a h))"
  by (simp add: fetch_json_def wf_rules)

lemma wf_fetch_text: "well_formed (fst (fetch_text w xs e a h))"
  by (simp add: fetch_text_def wf_rules)

lemma wf_bulk: "well_formed (fst (bulk api w xs mk e a h))"
  by (auto simp: bulk_def intro!: wf_rules split: option.splits)

lemma wf_core_list_projects: "well_formed (fst (core_list_projects e a h))"
  by (simp add: core_list_projects_def wf_rules)

lemma wf_repo_list_repos_by_project: "well_formed (fst (repo_list_repos_by_project e a h))"
  by (simp add: repo_list_repos_by_project_def wf_rules)

lemma wf_repo_list_branches_by_repo: "well_formed (fst (repo_list_branches_by_repo e a h))"
  by (simp add: repo_list_branches_by_repo_def wf_rules)

lemma wf_repo_list_my_branches_by_repo: "well_formed (fst (repo_list_my_branches_by_repo e a h))"
  by (simp add: repo_list_my_branches_by_repo_def wf_rules)

lemma wf_repo_create_branch: "well_formed (fst (repo_create_branch e a h))"
  by (auto simp: repo_create_branch_def Let_def intro!: wf_rules)

lemma wf_repo_list_pull_requests_by_repo_or_project:
  "well_formed (fst (repo_list_pull_requests_by_repo_or_project e a h))"
  by (auto simp: repo_list_pull_requests_by_repo_or_project_def Let_def intro!: wf_rules)

lemma wf_repo_search_commits: "well_formed (fst (repo_search_commits e a h))"
  by (simp add: repo_search_commits_def wf_rules)

lemma wf_wit_work_item_unlink: "well_formed (fst (wit_work_item_unlink e a h))"
  by (auto simp: wit_work_item_unlink_def Let_def intro!: wf_rules split: option.splits)

lemma wf_pipelines_download_artifact: "well_formed (fst (pipelines_download_artifact e a h))"
  by (auto simp: pipelines_download_artifact_def Let_def intro!: wf_rules split: option.splits)

lemma wf_wiki_get_page: "well_formed (fst (wiki_get_page e a h))"
  by (auto simp: wiki_get_page_def wf_fetch_json intro!: wf_rules split: option.splits)

lemma wf_wiki_get_page_content: "well_formed (fst (wiki_get_page_content e a h))"
  by (auto simp: wiki_get_page_content_def Let_def intro!: wf_rules)

lemma wf_wiki_create_or_update_page: "well_formed (fst (wiki_create_or_update_page e a h))"
  by (auto simp: wiki_create_or_update_page_def Let_def intro!: wf_rules split: option.splits)

lemma wf_testplan_create_test_case: "well_formed (fst (testplan_create_test_case e a h))"
  by (auto simp: testplan_create_test_case_def Let_def intro!: wf_rules)

lemma wf_testplan_update_test_case_steps: "well_formed (fst (testplan_update_test_case_steps e a h))"
  by (auto simp: testplan_update_test_case_steps_def intro!: wf_rules split: option.splits)

lemma wf_work_list_iterations: "well_formed (fst (work_list_iterations e a h))"
  by (simp add: work_list_iterations_def wf_rules)

lemmas wf_named =
  wf_sdk_call wf_sdk_branch wf_fetch_json wf_fetch_text wf_bulk wf_core_list_projects
  wf_repo_list_repos_by_project wf_repo_list_branches_by_repo wf_repo_list_my_branches_by_repo
  wf_repo_create_branch wf_repo_list_pull_requests_by_repo_or_project wf_repo_search_commits
  wf_wit_work_item_unlink wf_pipelines_download_artifact wf_wiki_get_page wf_wiki_get_page_content
  wf_wiki_create_or_update_page wf_testplan_create_test_case wf_testplan_update_test_case_steps
  wf_work_list_iterations

lemma wf_branches: "list_all (\<lambda>(name, body). \<forall>e a h. well_formed (fst (body e a h))) branches"
  by (simp add: branches_def wf_named
      repo_update_pull_request_def repo_create_pull_request_thread_def
      repo_update_pull_request_thread_def wit_get_work_item_def wit_get_work_items_batch_by_ids_def
      wit_get_query_def wit_update_work_items_batch_def wit_add_child_work_items_def
      work_create_iterations_def work_assign_iterations_def pipelines_update_build_stage_def)

lemma wf_handleToolCall: "well_formed (fst (handleToolCall e name a h))"
proof (cases "map_of branches name")
  case None
  then show ?thesis by (simp add: handleToolCall_def wf_ret_error)
next
  case (Some body)
  then have "(name, body) \<in> set branches" by (rule map_of_SomeD)
  then have "\<forall>e a h. well_formed (fst (body e a h))"
    using wf_branches by (auto simp: list_all_iff)
  then show ?thesis using Some by (simp add: handleToolCall_def)
qed

text \<open>
  Every branch but the download of an artifact settles its promise: each of its awaited
  operations is a promise of the outside, fulfilled or rejected.
\<close>

lemma sw_ret_text: "settled_well (fst (ret (text_result t) h))"
  by (simp add: settled_well_def single_text_def ret_def text_result_def)

lemma sw_ret_error: "settled_well (fst (ret (error_result t) h))"
  by (simp add: settled_well_def single_text_def ret_def error_result_def)

lemma sw_throw: "settled_well (fst (throw err h))"
  by (simp add: settled_well_def throw_def)

lemma sw_bind:
  assumes "\<And>t. fst (m h) \<noteq> Uncaught t"
    and "\<And>x h'. settled_well (fst (f x h'))"
  shows "settled_well (fst (bind m f h))"
proof (cases "m h")
  case (Pair r h1)
  show ?thesis
  proof (cases r)
    case (Normal x)
    then show ?thesis using Pair assms(2) [of x h1] by (simp add: bind_def)
  next
    case (Abrupt err)
    then show ?thesis using Pair by (simp add: bind_def settled_well_def)
  next
    case (Uncaught err)
    then show ?thesis using Pair assms(1) [of err] by simp
  qed
qed

lemma await_settles: "await x \<noteq> Uncaught t"
  by (cases x) simp_all

lemma sw_bind_call:
  assumes "\<And>x h'. settled_well (fst (f x h'))"
  shows "settled_well (fst (bind (call ep r) f h))"
  by (rule sw_bind) (simp_all add: call_def await_settles assms)

lemma sw_bind_getApi:
  assumes "\<And>x h'. settled_well (fst (f x h'))"
  shows "settled_well (fst (bind (getApi e api a) f h))"
  unfolding getApi_def by (rule sw_bind_call) (rule assms)

lemma sw_bind_settle:
  assumes "\<And>x h'. settled_well (fst (f x h'))"
  shows "settled_well (fst (bind (settle v) f h))"
  by (rule sw_bind) (simp_all add: settle_def await_settles assms)

lemma for_of_settles: "fst (for_of (\<lambda>x. call ep (mk x)) items rs h) \<noteq> Uncaught t"
proof (induction items arbitrary: rs h)
  case Nil
  show ?case by (simp add: ret_def)
next
  case (Cons x xs)
  show ?case
  proof (cases "ep h (mk x)")
    case (Return v)
    then show ?thesis using Cons.IH [of "rs @ [v]" "h @ [mk x]"] by (simp add: bind_def call_def)
  next
    case (Throw err)
    then show ?thesis by (simp add: bind_def call_def)
  qed
qed

lemma sw_bind_for_of:
  assumes "\<And>x h'. settled_well (fst (f x h'))"
  shows "settled_well (fst (bind (for_of (\<lambda>x. call ep (mk x)) items rs) f h))"
  by (rule sw_bind) (simp_all add: for_of_settles assms)

lemmas sw_rules = sw_ret_text sw_ret_error sw_throw sw_bind_call sw_bind_getApi sw_bind_settle
  sw_bind_for_of

lemma sw_sdk_call: "settled_well (fst (sdk_call api op xs e a h))"
  by (simp add: sdk_call_def sw_rules)

lemma sw_sdk_branch: "settled_well (fst (sdk_branch api op e a h))"
  by (simp add: sdk_branch_def sw_sdk_call)

lemma sw_fetch_json: "settled_well (fst (fetch_json w xs e a h))"
  by (simp add: fetch_json_def sw_rules)

lemma sw_fetch_text: "settled_well (fst (fetch_text w xs e a h))"
  by (simp add: fetch_text_def sw_rules)

lemma sw_bulk: "settled_well (fst (bulk api w xs mk e a h))"
  by (auto simp: bulk_def intro!: sw_rules split: option.splits)

lemma sw_core_list_projects: "settled_well (fst (core_list_projects e a h))"
  by (simp add: core_list_projects_def sw_rules)

lemma sw_repo_list_repos_by_project: "settled_well (fst (repo_list_repos_by_project e a h))"
  by (simp add: repo_list_repos_by_project_def sw_rules)

lemma sw_repo_list_branches_by_repo: "settled_well (fst (repo_list_branches_by_repo e a h))"
  by (simp add: repo_list_branches_by_repo_def sw_rules)

lemma sw_repo_list_my_branches_by_repo: "settled_well (fst (repo_list_my_branches_by_repo e a h))"
  by (simp add: repo_list_my_branches_by_repo_def sw_rules)

lemma sw_repo_create_branch: "settled_well (fst (repo_create_branch e a h))"
  by (auto simp: repo_create_branch_def Let_def intro!: sw_rules)

lemma sw_repo_list_pull_requests_by_repo_or_project:
  "settled_well (fst (repo_list_pull_requests_by_repo_or_project e a h))"
  by (auto simp: repo_list_pull_requests_by_repo_or_project_def Let_def intro!: sw_rules)

lemma sw_repo_search_commits: "settled_well (fst (repo_search_commits e a h))"
  by (simp add: repo_search_commits_def sw_rules)

lemma sw_wit_work_item_unlink: "settled_well (fst (wit_work_item_unlink e a h))"
  by (auto simp: wit_work_item_unlink_def Let_def intro!: sw_rules split: option.splits)

lemma sw_wiki_get_page: "settled_well (fst (wiki_get_page e a h))"
  by (auto simp: wiki_get_page_def sw_fetch_json intro!: sw_rules split: option.splits)

lemma sw_wiki_get_page_content: "settled_well (fst (wiki_get_page_content e a h))"
  by (auto simp: wiki_get_page_content_def Let_def intro!: sw_rules)

lemma sw_wiki_create_or_update_page: "settled_well (fst (wiki_create_or_update_page e a h))"
  by (auto simp: wiki_create_or_update_page_def Let_def intro!: sw_rules split: option.splits)

lemma sw_testplan_create_test_case: "settled_well (fst (testplan_create_test_case e a h))"
  by (auto simp: testplan_create_test_case_def Let_def intro!: sw_rules)

lemma sw_testplan_update_test_case_steps: "settled_well (fst (testplan_update_test_case_steps e a h))"
  by (auto simp: testplan_update_test_case_steps_def intro!: sw_rules split: option.splits)

lemma sw_work_list_iterations: "settled_well (fst (work_list_iterations e a h))"
  by (simp add: work_list_iterations_def sw_rules)

lemmas sw_named =
  sw_sdk_call sw_sdk_branch sw_fetch_json sw_fetch_text sw_bulk sw_core_list_projects
  sw_repo_list_repos_by_project sw_repo_list_branches_by_repo sw_repo_list_my_branches_by_repo
  sw_repo_create_branch sw_repo_list_pull_requests_by_repo_or_project sw_repo_search_commits
  sw_wit_work_item_unlink sw_wiki_get_page sw_wiki_get_page_content
  sw_wiki_create_or_update_page sw_testplan_create_test_case sw_testplan_update_test_case_steps
  sw_work_list_iterations

lemma sw_branches:
  "list_all (\<lambda>(name, body). name = ''pipelines_download_artifact''
       \<or> (\<forall>e a h. settled_well (fst (body e a h)))) branches"
  by (simp add: branches_def sw_named
      repo_update_pull_request_def repo_create_pull_request_thread_def
      repo_update_pull_request_thread_def wit_get_work_item_def wit_get_work_items_batch_by_ids_def
      wit_get_query_def wit_update_work_items_batch_def wit_add_child_work_items_def
      work_create_iterations_def work_assign_iterations_def pipelines_update_build_stage_def)

lemma pipe_settles:
  assumes "\<forall>h0 r0 t0. pipe_op e h0 r0 \<noteq> WriteError t0"
  shows "fst (pipe e r h) \<noteq> Uncaught t"
  using assms by (cases "pipe_op e h r") (auto simp: pipe_def)

lemma sw_pipelines_download_artifact:
  assumes "\<not> truthy_str (destinationPath a) \<or> (\<forall>h0 r0 t0. pipe_op e h0 r0 \<noteq> WriteError t0)"
  shows "settled_well (fst (pipelines_download_artifact e a h))"
proof (cases "truthy_str (destinationPath a)")
  case False
  then show ?thesis
    by (auto simp: pipelines_download_artifact_def truthy_str_def intro!: sw_rules split: option.splits)
next
  case True
  with assms have quiet: "\<forall>h0 r0 t0. pipe_op e h0 r0 \<noteq> WriteError t0" by blast
  have last: "settled_well (fst (bind (pipe e r) (\<lambda>_. ret (text_result s)) h'))" for r s h'
    by (rule sw_bind) (simp_all add: pipe_settles [OF quiet] sw_ret_text)
  show ?thesis
    by (auto simp: pipelines_download_artifact_def Let_def last intro!: sw_rules split: option.splits)
qed

lemma download_branch:
  "handleToolCall e ''pipelines_download_artifact'' a = pipelines_download_artifact e a"
  by (simp add: handleToolCall_def branches_def)

lemma sw_handleToolCall:
  assumes "name \<noteq> ''pipelines_download_artifact'' \<or> \<not> truthy_str (destinationPath a)
      \<or> (\<forall>h0 r0 t0. pipe_op e h0 r0 \<noteq> WriteError t0)"
  shows "settled_well (fst (handleToolCall e name a h))"
proof (cases "name = ''pipelines_download_artifact''")
  case True
  with assms show ?thesis by (simp add: download_branch sw_pipelines_download_artifact)
next
  case False
  show ?thesis
  proof (cases "map_of branches name")
    case None
    then show ?thesis by (simp add: handleToolCall_def sw_ret_error)
  next
    case (Some body)
    then have "(name, body) \<in> set branches" by (rule map_of_SomeD)
    then have "\<forall>e a h. settled_well (fst (body e a h))"
      using sw_branches False by (auto simp: list_all_iff)
    then show ?thesis using Some by (simp add: handleToolCall_def)
  qed
qed

lemma call_tool_rejected:
  "call_tool e (Throw err) name a h = (Normal (error_result (''Error: '' @ error_message err)), h)"
  by (simp add: call_tool_def try_catch_def bind_def settle_def ret_def)

lemma call_tool_connected:
  "call_tool e (Return c) name a h =
     (case handleToolCall e name (case a of None \<Rightarrow> no_args | Some x \<Rightarrow> x) h of
        (Normal r, h') \<Rightarrow> (Normal r, h')
      | (Abrupt err, h') \<Rightarrow> (Normal (error_result (''Error: '' @ error_message err)), h')
      | (Uncaught err, h') \<Rightarrow> (Uncaught err, h'))"
  by (simp add: call_tool_def try_catch_def bind_def settle_def ret_def
      split: prod.splits completion.splits)

lemma call_tool_not_rejected: "fst (call_tool e conn name a h) \<noteq> Abrupt err"
  by (cases conn) (simp_all add: call_tool_rejected call_tool_connected split: prod.splits completion.splits)

lemma call_tool_shape:
  "(\<exists>r h'. call_tool e conn name a h = (Normal r, h') \<and> single_text r)
   \<or> (name = ''pipelines_download_artifact''
       \<and> truthy_str (destinationPath (case a of None \<Rightarrow> no_args | Some x \<Rightarrow> x))
       \<and> (\<exists>t h'. call_tool e conn name a h = (Uncaught t, h')))"
proof (cases conn)
  case (Throw err)
  then show ?thesis by (simp add: call_tool_rejected error_result_def single_text_def)
next
  case (Return c)
  define b where "b = (case a of None \<Rightarrow> no_args | Some x \<Rightarrow> x)"
  obtain out h1 where run: "handleToolCall e name b h = (out, h1)" by (cases "handleToolCall e name b h")
  have wf: "well_formed out" using wf_handleToolCall [of e name b h] run by simp
  show ?thesis
  proof (cases out)
    case (Normal r)
    then show ?thesis using wf run Return
      by (simp add: call_tool_connected well_formed_def b_def)
  next
    case (Abrupt err)
    then show ?thesis using run Return
      by (simp add: call_tool_connected error_result_def single_text_def b_def)
  next
    case (Uncaught t)
    have "name = ''pipelines_download_artifact'' \<and> truthy_str (destinationPath b)"
    proof (rule ccontr)
      assume "\<not> (name = ''pipelines_download_artifact'' \<and> truthy_str (destinationPath b))"
      then have "name \<noteq> ''pipelines_download_artifact'' \<or> \<not> truthy_str (destinationPath b)
          \<or> (\<forall>h0 r0 t0. pipe_op e h0 r0 \<noteq> WriteError t0)"
        by blast
      then have "settled_well (fst (handleToolCall e name b h))" by (rule sw_handleToolCall)
      then show False using run Uncaught by (simp add: settled_well_def)
    qed
    then show ?thesis using run Return Uncaught
      by (simp add: call_tool_connected b_def)
  qed
qed

lemma call_tool_settled:
  assumes "name \<noteq> ''pipelines_download_artifact''
      \<or> \<not> truthy_str (destinationPath (case a of None \<Rightarrow> no_args | Some x \<Rightarrow> x))
      \<or> (\<forall>h0 r0 t0. pipe_op e h0 r0 \<noteq> WriteError t0)"
  shows "\<exists>r h'. call_tool e conn name a h = (Normal r, h')"
proof (cases conn)
  case (Throw err)
  then show ?thesis by (simp add: call_tool_rejected)
next
  case (Return c)
  define b where "b = (case a of None \<Rightarrow> no_args | Some x \<Rightarrow> x)"
  obtain out h1 where run: "handleToolCall e name b h = (out, h1)" by (cases "handleToolCall e name b h")
  have "settled_well (fst (handleToolCall e name b h))"
    using assms unfolding b_def by (rule sw_handleToolCall)
  then have sw: "settled_well out" using run by simp
  show ?thesis
  proof (cases out)
    case (Normal r)
    then show ?thesis using run Return by (simp add: call_tool_connected b_def)
  next
    case (Abrupt err)
    then show ?thesis using run Return by (simp add: call_tool_connected b_def)
  next
    case (Uncaught t)
    then show ?thesis using sw by (simp add: settled_well_def)
  qed
qed

text \<open>
  The uncaught exception of \<open>pipelines_download_artifact\<close>: the file cannot be opened, the
  write stream emits \<open>error\<close>, and the call ends the process in place of returning an
  envelope.
\<close>

lemma pipelines_download_artifact_uncaught:
  "call_tool unwritable (Return ()) ''pipelines_download_artifact'' (Some download_args) []
     = (Uncaught (ErrorObj ''ENOENT''),
        [Req ''connection.getBuildApi'' download_args [],
         Req ''buildApi.getArtifactContentZip'' download_args [],
         Req ''mkdirSync'' download_args [JStr ''out''],
         Req ''createWriteStream'' download_args [JStr ''out/drop.zip''],
         Req ''stream.pipe'' download_args [JStr ''out/drop.zip'']])"
  by (simp add: call_tool_connected download_branch pipelines_download_artifact_def getApi_def
      bind_def call_def pipe_def ret_def unwritable_def failing_at_def download_args_def
      no_args_def key_of_def Let_def)

text \<open>
  C1. The names of the catalog and the labels of the switch are the same 82 names, each
  once on either side. A name of the catalog selects its one branch and never the default
  branch; any other name selects the default branch.
\<close>

theorem catalog_dispatcher_bijection:
  "distinct catalog_names \<and> distinct case_labels \<and> set catalog_names = set case_labels
   \<and> length catalog_names = 82
   \<and> (name \<in> set catalog_names \<longrightarrow>
        length (filter (\<lambda>l. l = name) case_labels) = 1
        \<and> (\<exists>body. map_of branches name = Some body \<and> handleToolCall e name a = body e a))
   \<and> (name \<in> set case_labels \<longrightarrow> length (filter (\<lambda>n. n = name) catalog_names) = 1)
   \<and> (name \<notin> set catalog_names \<longrightarrow>
        handleToolCall e name a = ret (error_result (''Unknown tool: '' @ name)))"
proof -
  have d: "distinct catalog_names" by (rule distinct_catalog_names)
  have n: "length catalog_names = 82" by (simp add: catalog_names_def)
  have known: "\<exists>body. map_of branches name = Some body \<and> handleToolCall e name a = body e a"
    if "name \<in> set catalog_names"
  proof -
    from that have "name \<in> set case_labels" by (simp add: case_labels_catalog)
    then have "map_of branches name \<noteq> None" by (simp only: branch_found)
    then obtain body where "map_of branches name = Some body" by blast
    then show ?thesis by (simp add: handleToolCall_def)
  qed
  have unknown: "handleToolCall e name a = ret (error_result (''Unknown tool: '' @ name))"
    if "name \<notin> set catalog_names"
  proof -
    from that have "map_of branches name = None"
      using branch_found [of name] by (simp add: case_labels_catalog)
    then show ?thesis by (simp add: handleToolCall_def)
  qed
  show ?thesis
    using d n known unknown count_distinct [OF d, of name]
    by (simp add: case_labels_catalog)
qed

theorem catalog_dispatcher_bijection_witness:
  "''search_code'' \<in> set catalog_names \<and> ''search_code'' \<in> set case_labels
   \<and> length (filter (\<lambda>l. l = ''search_code'') case_labels) = 1
   \<and> (\<exists>body. map_of branches ''search_code'' = Some body)
   \<and> ''delete_everything'' \<notin> set catalog_names
   \<and> handleToolCall (failing_at 0) ''delete_everything'' no_args
       = ret (error_result ''Unknown tool: delete_everything'')"
proof -
  have a: "''search_code'' \<in> set catalog_names" by (simp add: catalog_names_def)
  have b: "''delete_everything'' \<notin> set catalog_names" by (simp add: catalog_names_def)
  show ?thesis
    using a b
      catalog_dispatcher_bijection [of "''search_code''" "failing_at 0" no_args]
      catalog_dispatcher_bijection [of "''delete_everything''" "failing_at 0" no_args]
    by auto
qed

text \<open>
  C5, as the code has it. The promise of the request handler is never rejected. When the
  connection cannot be obtained, the envelope is the error-flagged text \<open>Error: \<close>
  followed by the message, whatever the name. With a connection, a name outside the
  catalog gives the error-flagged text \<open>Unknown tool: name\<close>, an envelope that the
  dispatcher returns is passed on, and an exception that the dispatcher throws is caught
  by the one \<open>try\<close> of the request handler and gives the error-flagged text \<open>Error: \<close>
  followed by the message of the \<open>Error\<close>; a thrown value that is not an \<open>Error\<close> gives
  \<open>Error: Unknown error occurred\<close>. An envelope is returned by every call of a tool other
  than \<open>pipelines_download_artifact\<close>, by that tool without a destination, and by that
  tool when the write stream raises no error.
\<close>

theorem call_tool_catches:
  "fst (call_tool e conn name a h) \<noteq> Abrupt err
   \<and> (name \<noteq> ''pipelines_download_artifact''
        \<or> \<not> truthy_str (destinationPath (case a of None \<Rightarrow> no_args | Some x \<Rightarrow> x))
        \<or> (\<forall>h0 r0 t0. pipe_op e h0 r0 \<noteq> WriteError t0)
      \<longrightarrow> (\<exists>r h'. call_tool e conn name a h = (Normal r, h')))
   \<and> call_tool e (Throw err) name a h = (Normal (error_result (''Error: '' @ error_message err)), h)
   \<and> (name \<notin> set catalog_names \<longrightarrow>
        call_tool e (Return c) name a h = (Normal (error_result (''Unknown tool: '' @ name)), h))
   \<and> (handleToolCall e name (case a of None \<Rightarrow> no_args | Some x \<Rightarrow> x) h = (Normal r, h') \<longrightarrow>
        call_tool e (Return c) name a h = (Normal r, h'))
   \<and> (handleToolCall e name (case a of None \<Rightarrow> no_args | Some x \<Rightarrow> x) h = (Abrupt err, h') \<longrightarrow>
        call_tool e (Return c) name a h = (Normal (error_result (''Error: '' @ error_message err)), h'))
   \<and> error_message (ErrorObj m) = m
   \<and> error_message NotAnError = ''Unknown error occurred''
   \<and> isError (error_result t) = Some True
   \<and> content (error_result t) = [\<lparr>ctype = ''text'', ctext = t\<rparr>]"
proof -
  have never: "fst (call_tool e conn name a h) \<noteq> Abrupt err"
    by (rule call_tool_not_rejected)
  have total: "name \<noteq> ''pipelines_download_artifact''
        \<or> \<not> truthy_str (destinationPath (case a of None \<Rightarrow> no_args | Some x \<Rightarrow> x))
        \<or> (\<forall>h0 r0 t0. pipe_op e h0 r0 \<noteq> WriteError t0)
      \<longrightarrow> (\<exists>r h'. call_tool e conn name a h = (Normal r, h'))"
    using call_tool_settled by blast
  have conn: "call_tool e (Throw err) name a h = (Normal (error_result (''Error: '' @ error_message err)), h)"
    by (rule call_tool_rejected)
  have unknown: "name \<notin> set catalog_names \<longrightarrow>
        call_tool e (Return c) name a h = (Normal (error_result (''Unknown tool: '' @ name)), h)"
  proof
    assume "name \<notin> set catalog_names"
    then have "map_of branches name = None"
      using branch_found [of name] by (simp add: case_labels_catalog)
    then show "call_tool e (Return c) name a h = (Normal (error_result (''Unknown tool: '' @ name)), h)"
      by (simp add: call_tool_connected handleToolCall_def ret_def)
  qed
  have passed: "handleToolCall e name (case a of None \<Rightarrow> no_args | Some x \<Rightarrow> x) h = (Normal r, h') \<longrightarrow>
        call_tool e (Return c) name a h = (Normal r, h')"
    by (simp add: call_tool_connected)
  have caught: "handleToolCall e name (case a of None \<Rightarrow> no_args | Some x \<Rightarrow> x) h = (Abrupt err, h') \<longrightarrow>
        call_tool e (Return c) name a h = (Normal (error_result (''Error: '' @ error_message err)), h')"
    by (simp add: call_tool_connected)
  have m1: "error_message (ErrorObj m) = m" by (simp add: error_message_def)
  have m2: "error_message NotAnError = ''Unknown error occurred''" by (simp add: error_message_def)
  have f1: "isError (error_result t) = Some True" by (simp add: error_result_def)
  have f2: "content (error_result t) = [\<lparr>ctype = ''text'', ctext = t\<rparr>]" by (simp add: error_result_def)
  show ?thesis by (intro conjI never total conn unknown passed caught m1 m2 f1 f2)
qed

theorem call_tool_catches_witness:
  "''delete_everything'' \<notin> set catalog_names
   \<and> call_tool (failing_at 1) (Return ()) ''delete_everything'' None []
       = (Normal (error_result ''Unknown tool: delete_everything''), [])
   \<and> handleToolCall (failing_at 1) ''core_list_project_teams'' no_args []
       = (Abrupt (ErrorObj ''boom''),
          [Req ''connection.getCoreApi'' no_args [], Req ''coreApi.getTeams'' no_args []])
   \<and> call_tool (failing_at 1) (Return ()) ''core_list_project_teams'' None []
       = (Normal (error_result ''Error: boom''),
          [Req ''connection.getCoreApi'' no_args [], Req ''coreApi.getTeams'' no_args []])
   \<and> handleToolCall (failing_at 9) ''core_list_project_teams'' no_args []
       = (Normal (text_result ''<json>''),
          [Req ''connection.getCoreApi'' no_args [], Req ''coreApi.getTeams'' no_args []])
   \<and> call_tool (failing_at 9) (Return ()) ''core_list_project_teams'' None []
       = (Normal (text_result ''<json>''),
          [Req ''connection.getCoreApi'' no_args [], Req ''coreApi.getTeams'' no_args []])
   \<and> ''core_list_project_teams'' \<noteq> ''pipelines_download_artifact''
   \<and> (\<exists>r h'. call_tool (failing_at 1) (Return ()) ''core_list_project_teams'' None [] = (Normal r, h'))
   \<and> (\<forall>h0 r0 t0. pipe_op (failing_at 4) h0 r0 \<noteq> WriteError t0)
   \<and> (\<exists>r h'. call_tool (failing_at 4) (Return ()) ''pipelines_download_artifact'' (Some download_args) []
         = (Normal r, h'))
   \<and> call_tool (failing_at 4) (Return ()) ''pipelines_download_artifact'' (Some download_args) []
       = (Normal (error_result ''Error: boom''),
          [Req ''connection.getBuildApi'' download_args [],
           Req ''buildApi.getArtifactContentZip'' download_args [],
           Req ''mkdirSync'' download_args [JStr ''out''],
           Req ''createWriteStream'' download_args [JStr ''out/drop.zip''],
           Req ''stream.pipe'' download_args [JStr ''out/drop.zip'']])
   \<and> call_tool (failing_at 9) (Return ()) ''pipelines_download_artifact'' (Some download_args) []
       = (Normal (text_result ''Artifact saved to out/drop.zip''),
          [Req ''connection.getBuildApi'' download_args [],
           Req ''buildApi.getArtifactContentZip'' download_args [],
           Req ''mkdirSync'' download_args [JStr ''out''],
           Req ''createWriteStream'' download_args [JStr ''out/drop.zip''],
           Req ''stream.pipe'' download_args [JStr ''out/drop.zip'']])"
proof -
  let ?dl = "[Req ''connection.getBuildApi'' download_args [],
           Req ''buildApi.getArtifactContentZip'' download_args [],
           Req ''mkdirSync'' download_args [JStr ''out''],
           Req ''createWriteStream'' download_args [JStr ''out/drop.zip''],
           Req ''stream.pipe'' download_args [JStr ''out/drop.zip'']]"
  have g: "handleToolCall (failing_at 4) ''pipelines_download_artifact'' download_args []
       = (Abrupt (ErrorObj ''boom''), ?dl)"
    by (simp add: download_branch pipelines_download_artifact_def getApi_def bind_def call_def
        pipe_def ret_def failing_at_def download_args_def no_args_def key_of_def Let_def)
  have k: "handleToolCall (failing_at 9) ''pipelines_download_artifact'' download_args []
       = (Normal (text_result ''Artifact saved to out/drop.zip''), ?dl)"
    by (simp add: download_branch pipelines_download_artifact_def getApi_def bind_def call_def
        pipe_def ret_def failing_at_def download_args_def no_args_def key_of_def Let_def)
  let ?log = "[Req ''connection.getCoreApi'' no_args [], Req ''coreApi.getTeams'' no_args []]"
  have a: "''delete_everything'' \<notin> set catalog_names" by (simp add: catalog_names_def)
  have b: "handleToolCall (failing_at 1) ''core_list_project_teams'' no_args []
       = (Abrupt (ErrorObj ''boom''), ?log)"
    by (simp add: handleToolCall_def branches_def sdk_branch_def sdk_call_def getApi_def bind_def
        call_def failing_at_def)
  have c: "handleToolCall (failing_at 9) ''core_list_project_teams'' no_args []
       = (Normal (text_result ''<json>''), ?log)"
    by (simp add: handleToolCall_def branches_def sdk_branch_def sdk_call_def getApi_def bind_def
        call_def ret_def failing_at_def)
  have d: "''core_list_project_teams'' \<noteq> ''pipelines_download_artifact''" by simp
  have q: "\<forall>h0 r0 t0. pipe_op (failing_at 4) h0 r0 \<noteq> WriteError t0" by (simp add: failing_at_def)
  note t1 = call_tool_catches [where e = "failing_at 1" and conn = "Return ()"
        and name = "''delete_everything''" and a = None and h = "[]" and c = "()"
        and err = NotAnError and h' = "[]" and m = "[]" and t = "[]" and r = "text_result []"]
  note t2 = call_tool_catches [where e = "failing_at 1" and conn = "Return ()"
        and name = "''core_list_project_teams''" and a = None and h = "[]" and c = "()"
        and err = "ErrorObj ''boom''" and h' = ?log and m = "''boom''" and t = "[]"
        and r = "text_result []"]
  note t3 = call_tool_catches [where e = "failing_at 9" and conn = "Return ()"
        and name = "''core_list_project_teams''" and a = None and h = "[]" and c = "()"
        and err = NotAnError and h' = ?log and m = "[]" and t = "[]"
        and r = "text_result ''<json>''"]
  note t4 = call_tool_catches [where e = "failing_at 4" and conn = "Return ()"
        and name = "''pipelines_download_artifact''" and a = "Some download_args" and h = "[]"
        and c = "()" and err = NotAnError and h' = "[]" and m = "[]" and t = "[]"
        and r = "text_result []"]
  have "''delete_everything'' \<notin> set catalog_names \<longrightarrow>
      call_tool (failing_at 1) (Return ()) ''delete_everything'' None []
        = (Normal (error_result (''Unknown tool: '' @ ''delete_everything'')), [])"
    by (insert t1, elim conjE, assumption)
  then have w1: "call_tool (failing_at 1) (Return ()) ''delete_everything'' None []
       = (Normal (error_result ''Unknown tool: delete_everything''), [])"
    using a by simp
  have "handleToolCall (failing_at 1) ''core_list_project_teams'' (case None of None \<Rightarrow> no_args | Some x \<Rightarrow> x) []
        = (Abrupt (ErrorObj ''boom''), ?log) \<longrightarrow>
      call_tool (failing_at 1) (Return ()) ''core_list_project_teams'' None []
        = (Normal (error_result (''Error: '' @ error_message (ErrorObj ''boom''))), ?log)"
    by (insert t2, elim conjE, assumption)
  then have w2: "call_tool (failing_at 1) (Return ()) ''core_list_project_teams'' None []
       = (Normal (error_result ''Error: boom''), ?log)"
    using b by (simp add: error_message_def)
  have "handleToolCall (failing_at 9) ''core_list_project_teams'' (case None of None \<Rightarrow> no_args | Some x \<Rightarrow> x) []
        = (Normal (text_result ''<json>''), ?log) \<longrightarrow>
      call_tool (failing_at 9) (Return ()) ''core_list_project_teams'' None []
        = (Normal (text_result ''<json>''), ?log)"
    by (insert t3, elim conjE, assumption)
  then have w3: "call_tool (failing_at 9) (Return ()) ''core_list_project_teams'' None []
       = (Normal (text_result ''<json>''), ?log)"
    using c by simp
  have "''core_list_project_teams'' \<noteq> ''pipelines_download_artifact''
        \<or> \<not> truthy_str (destinationPath (case None of None \<Rightarrow> no_args | Some x \<Rightarrow> x))
        \<or> (\<forall>h0 r0 t0. pipe_op (failing_at 1) h0 r0 \<noteq> WriteError t0)
      \<longrightarrow> (\<exists>r h'. call_tool (failing_at 1) (Return ()) ''core_list_project_teams'' None [] = (Normal r, h'))"
    by (insert t2, elim conjE, assumption)
  then have w4: "\<exists>r h'. call_tool (failing_at 1) (Return ()) ''core_list_project_teams'' None [] = (Normal r, h')"
    using d by blast
  have "''pipelines_download_artifact'' \<noteq> ''pipelines_download_artifact''
        \<or> \<not> truthy_str (destinationPath (case Some download_args of None \<Rightarrow> no_args | Some x \<Rightarrow> x))
        \<or> (\<forall>h0 r0 t0. pipe_op (failing_at 4) h0 r0 \<noteq> WriteError t0)
      \<longrightarrow> (\<exists>r h'. call_tool (failing_at 4) (Return ()) ''pipelines_download_artifact'' (Some download_args) []
            = (Normal r, h'))"
    by (insert t4, elim conjE, assumption)
  then have w5: "\<exists>r h'. call_tool (failing_at 4) (Return ()) ''pipelines_download_artifact'' (Some download_args) []
         = (Normal r, h')"
    using q by blast
  note t5 = call_tool_catches [where e = "failing_at 4" and conn = "Return ()"
        and name = "''pipelines_download_artifact''" and a = "Some download_args" and h = "[]"
        and c = "()" and err = "ErrorObj ''boom''" and h' = ?dl and m = "''boom''" and t = "[]"
        and r = "text_result []"]
  have "handleToolCall (failing_at 4) ''pipelines_download_artifact''
          (case Some download_args of None \<Rightarrow> no_args | Some x \<Rightarrow> x) []
        = (Abrupt (ErrorObj ''boom''), ?dl) \<longrightarrow>
      call_tool (failing_at 4) (Return ()) ''pipelines_download_artifact'' (Some download_args) []
        = (Normal (error_result (''Error: '' @ error_message (ErrorObj ''boom''))), ?dl)"
    by (insert t5, elim conjE, assumption)
  then have w6: "call_tool (failing_at 4) (Return ()) ''pipelines_download_artifact'' (Some download_args) []
       = (Normal (error_result ''Error: boom''), ?dl)"
    using g by (simp add: error_message_def)
  note t6 = call_tool_catches [where e = "failing_at 9" and conn = "Return ()"
        and name = "''pipelines_download_artifact''" and a = "Some download_args" and h = "[]"
        and c = "()" and err = NotAnError and h' = ?dl and m = "[]" and t = "[]"
        and r = "text_result ''Artifact saved to out/drop.zip''"]
  have "handleToolCall (failing_at 9) ''pipelines_download_artifact''
          (case Some download_args of None \<Rightarrow> no_args | Some x \<Rightarrow> x) []
        = (Normal (text_result ''Artifact saved to out/drop.zip''), ?dl) \<longrightarrow>
      call_tool (failing_at 9) (Return ()) ''pipelines_download_artifact'' (Some download_args) []
        = (Normal (text_result ''Artifact saved to out/drop.zip''), ?dl)"
    by (insert t6, elim conjE, assumption)
  then have w7: "call_tool (failing_at 9) (Return ()) ''pipelines_download_artifact'' (Some download_args) []
       = (Normal (text_result ''Artifact saved to out/drop.zip''), ?dl)"
    using k by simp
  show ?thesis by (intro conjI a w1 b w2 c w3 d w4 q w5 w6 w7)
qed

text \<open>
  C5 as stated fails. A name outside the catalog does not give the text \<open>Unknown tool\<close>
  when the connection cannot be obtained, since the connection is awaited before the
  dispatcher is entered; and the text does not come from the thrown value when that is not
  an \<open>Error\<close>.
\<close>

theorem unknown_tool_failed_connection_counterexample:
  "''delete_everything'' \<notin> set catalog_names
   \<and> call_tool (failing_at 9) (Throw (ErrorObj ''Invalid URL'') :: unit outcome) ''delete_everything'' None []
       = (Normal (error_result ''Error: Invalid URL''), [])
   \<and> error_result ''Error: Invalid URL'' \<noteq> error_result ''Unknown tool: delete_everything''
   \<and> call_tool ((failing_at 9)\<lparr>json_op := (\<lambda>h r. Throw NotAnError)\<rparr>) (Return ())
         ''core_list_project_teams'' None []
       = (Normal (error_result ''Error: Unknown error occurred''), [Req ''connection.getCoreApi'' no_args []])"
proof -
  have a: "''delete_everything'' \<notin> set catalog_names" by (simp add: catalog_names_def)
  have b: "call_tool (failing_at 9) (Throw (ErrorObj ''Invalid URL'') :: unit outcome) ''delete_everything'' None []
       = (Normal (error_result ''Error: Invalid URL''), [])"
    by (simp add: call_tool_rejected error_message_def)
  have c: "error_result ''Error: Invalid URL'' \<noteq> error_result ''Unknown tool: delete_everything''"
    by (simp add: error_result_def)
  have d: "call_tool ((failing_at 9)\<lparr>json_op := (\<lambda>h r. Throw NotAnError)\<rparr>) (Return ())
         ''core_list_project_teams'' None []
       = (Normal (error_result ''Error: Unknown error occurred''), [Req ''connection.getCoreApi'' no_args []])"
    by (simp add: call_tool_connected handleToolCall_def branches_def sdk_branch_def sdk_call_def
        getApi_def bind_def call_def error_message_def)
  show ?thesis by (intro conjI a b c d)
qed

text \<open>
  C10. Whatever the name, the bag and the answers of the service, an envelope returned by
  the dispatcher has exactly one content item, of type \<open>text\<close>, and so has the envelope
  that the request handler returns, with or without the error flag. The request handler
  returns such an envelope in every case but one, in which no envelope is returned: the
  uncaught exception of \<open>pipelines_download_artifact\<close> with a destination.
\<close>

theorem every_envelope_single_text:
  "well_formed (fst (handleToolCall e name a h))
   \<and> well_formed (fst (call_tool e conn name a' h))
   \<and> ((\<exists>t flag h'. call_tool e conn name a' h
          = (Normal \<lparr>content = [\<lparr>ctype = ''text'', ctext = t\<rparr>], isError = flag\<rparr>, h'))
      \<or> (name = ''pipelines_download_artifact''
          \<and> truthy_str (destinationPath (case a' of None \<Rightarrow> no_args | Some x \<Rightarrow> x))
          \<and> (\<exists>t h'. call_tool e conn name a' h = (Uncaught t, h'))))"
proof -
  have shape: "\<exists>t flag. r = \<lparr>content = [\<lparr>ctype = ''text'', ctext = t\<rparr>], isError = flag\<rparr>"
    if "single_text r" for r
  proof -
    obtain cs flag where r: "r = \<lparr>content = cs, isError = flag\<rparr>" by (cases r) auto
    from that r obtain c where cs: "cs = [c]" and "ctype c = ''text''"
      by (auto simp: single_text_def split: list.splits)
    moreover obtain ty t where "c = \<lparr>ctype = ty, ctext = t\<rparr>" by (cases c) auto
    ultimately show ?thesis using r by auto
  qed
  have one: "well_formed (fst (handleToolCall e name a h))" by (rule wf_handleToolCall)
  consider (env) r h' where "call_tool e conn name a' h = (Normal r, h')" "single_text r"
    | (crash) t h' where "name = ''pipelines_download_artifact''"
        "truthy_str (destinationPath (case a' of None \<Rightarrow> no_args | Some x \<Rightarrow> x))"
        "call_tool e conn name a' h = (Uncaught t, h')"
    using call_tool_shape [of e conn name a' h] by blast
  then show ?thesis
  proof cases
    case env
    from shape [OF env(2)] obtain t flag where
      "r = \<lparr>content = [\<lparr>ctype = ''text'', ctext = t\<rparr>], isError = flag\<rparr>" by blast
    then have "\<exists>t flag h'. call_tool e conn name a' h
          = (Normal \<lparr>content = [\<lparr>ctype = ''text'', ctext = t\<rparr>], isError = flag\<rparr>, h')"
      using env(1) by blast
    moreover have "well_formed (fst (call_tool e conn name a' h))"
      using env by (simp add: well_formed_def)
    ultimately show ?thesis using one by blast
  next
    case crash
    then have "well_formed (fst (call_tool e conn name a' h))" by (simp add: well_formed_def)
    then show ?thesis using one crash by blast
  qed
qed
section \<open>Properties of the name filters\<close>










section \<open>Properties of the lookup tables\<close>

lemma js_lookup_declared: "map_of table k = Some v \<Longrightarrow> js_lookup table k = Declared v"
  by (simp add: js_lookup_def)

lemma js_lookup_undeclared:
  "map_of table k = None \<Longrightarrow> k \<notin> set object_prototype_names \<Longrightarrow> js_lookup table k = Undefined"
  by (simp add: js_lookup_def)

lemma sdk_call_requests:
  "json_op e h (Req api a []) = Return c
   \<Longrightarrow> snd (sdk_call api op xs e a h) = h @ [Req api a [], Req op a xs]"
  by (simp add: sdk_call_def getApi_def bind_def call_def ret_def split: outcome.splits completion.splits)

lemma handlers_pass_lookup:
  "json_op e h (Req ''connection.getGitApi'' a []) = Return c \<longrightarrow>
     snd (repo_update_pull_request_thread e a h)
       = h @ [Req ''connection.getGitApi'' a [],
              Req ''gitApi.updateThread'' a [JObj [(''status'', lookup_json (thread_update_status (status a)))]]]"
  "json_op e h (Req ''connection.getWorkItemTrackingApi'' a []) = Return c \<longrightarrow>
     snd (wit_get_work_item e a h)
       = h @ [Req ''connection.getWorkItemTrackingApi'' a [],
              Req ''witApi.getWorkItem'' a
                [arg a ''id'', arg a ''fields'', JUndefined, lookup_json (workitem_expand (expand a)),
                 jstr (project a)]]"
  "json_op e h (Req ''connection.getGitApi'' a []) = Return c \<and> truthy_str (repositoryId a) \<longrightarrow>
     snd (repo_list_pull_requests_by_repo_or_project e a h)
       = h @ [Req ''connection.getGitApi'' a [],
              Req ''gitApi.getPullRequests'' a
                [jstr (repositoryId a), JObj [(''status'', lookup_json (pr_list_status (status a)))],
                 jstr (project a), JUndefined, JNum (case skip a of None \<Rightarrow> 0 | Some s \<Rightarrow> s),
                 JNum (top_or 100 a)]]"
proof -
  show "json_op e h (Req ''connection.getGitApi'' a []) = Return c \<longrightarrow>
     snd (repo_update_pull_request_thread e a h)
       = h @ [Req ''connection.getGitApi'' a [],
              Req ''gitApi.updateThread'' a [JObj [(''status'', lookup_json (thread_update_status (status a)))]]]"
    by (simp add: repo_update_pull_request_thread_def sdk_call_requests)
  show "json_op e h (Req ''connection.getWorkItemTrackingApi'' a []) = Return c \<longrightarrow>
     snd (wit_get_work_item e a h)
       = h @ [Req ''connection.getWorkItemTrackingApi'' a [],
              Req ''witApi.getWorkItem'' a
                [arg a ''id'', arg a ''fields'', JUndefined, lookup_json (workitem_expand (expand a)),
                 jstr (project a)]]"
    by (simp add: wit_get_work_item_def sdk_call_requests)
  show "json_op e h (Req ''connection.getGitApi'' a []) = Return c \<and> truthy_str (repositoryId a) \<longrightarrow>
     snd (repo_list_pull_requests_by_repo_or_project e a h)
       = h @ [Req ''connection.getGitApi'' a [],
              Req ''gitApi.getPullRequests'' a
                [jstr (repositoryId a), JObj [(''status'', lookup_json (pr_list_status (status a)))],
                 jstr (project a), JUndefined, JNum (case skip a of None \<Rightarrow> 0 | Some s \<Rightarrow> s),
                 JNum (top_or 100 a)]]"
    by (simp add: repo_list_pull_requests_by_repo_or_project_def Let_def getApi_def bind_def call_def
        ret_def split: outcome.splits completion.splits)
qed

text \<open>
  C4, as the code has it. The tables looked up without a default (thread status on update,
  pull-request status on update, work-item expand, query expand) give every declared key
  its declared value, \<open>none\<close> giving 0, and give \<open>undefined\<close> for a key that is neither
  declared nor a name of \<open>Object.prototype\<close>: nothing is substituted and nothing is
  thrown. The tables looked up with \<open>|| 1\<close> (pull-request status on listing, thread status
  on creation, stage state) give a declared key with a non-zero value its declared value,
  and 1 for such an undeclared key; an absent pull-request status is \<open>Active\<close>, that is 1.
  The value looked up is what the branch passes to the SDK call.
\<close>

theorem lookup_tables:
  "(map_of thread_statusMap k = Some v \<longrightarrow> thread_update_status (Some k) = Declared v)
   \<and> (map_of pr_update_statusMap k = Some v \<longrightarrow> pr_update_status k = Declared v)
   \<and> (map_of workitem_expandMap k = Some v \<longrightarrow> workitem_expand (Some k) = Declared v)
   \<and> (map_of query_expandMap k = Some v \<longrightarrow> query_expand (Some k) = Declared v)
   \<and> (map_of pr_list_statusMap k = Some v \<and> v \<noteq> 0 \<longrightarrow> pr_list_status (Some k) = Declared v)
   \<and> (map_of thread_statusMap k = Some v \<longrightarrow> thread_create_status (Some k) = Declared v)
   \<and> (map_of stageUpdateMap k = Some v \<longrightarrow> stage_state (Some k) = Declared v)
   \<and> (k \<notin> set object_prototype_names \<longrightarrow>
        (map_of pr_list_statusMap k = None \<longrightarrow> pr_list_status (Some k) = Declared 1)
        \<and> (map_of thread_statusMap k = None \<longrightarrow> thread_create_status (Some k) = Declared 1)
        \<and> (map_of stageUpdateMap k = None \<longrightarrow> stage_state (Some k) = Declared 1)
        \<and> (map_of thread_statusMap k = None \<longrightarrow> thread_update_status (Some k) = Undefined)
        \<and> (map_of pr_update_statusMap k = None \<longrightarrow> pr_update_status k = Undefined)
        \<and> (map_of workitem_expandMap k = None \<longrightarrow> workitem_expand (Some k) = Undefined)
        \<and> (map_of query_expandMap k = None \<longrightarrow> query_expand (Some k) = Undefined))
   \<and> pr_list_status None = Declared 1
   \<and> thread_create_status None = Declared 1
   \<and> workitem_expand None = Undefined
   \<and> lookup_json (Declared v) = JNum v \<and> lookup_json Undefined = JUndefined
   \<and> (json_op e h (Req ''connection.getGitApi'' a []) = Return c \<longrightarrow>
        snd (repo_update_pull_request_thread e a h)
          = h @ [Req ''connection.getGitApi'' a [],
                 Req ''gitApi.updateThread'' a [JObj [(''status'', lookup_json (thread_update_status (status a)))]]])
   \<and> (json_op e h (Req ''connection.getWorkItemTrackingApi'' a []) = Return c \<longrightarrow>
        snd (wit_get_work_item e a h)
          = h @ [Req ''connection.getWorkItemTrackingApi'' a [],
                 Req ''witApi.getWorkItem'' a
                   [arg a ''id'', arg a ''fields'', JUndefined, lookup_json (workitem_expand (expand a)),
                    jstr (project a)]])
   \<and> (json_op e h (Req ''connection.getGitApi'' a []) = Return c \<and> truthy_str (repositoryId a) \<longrightarrow>
        snd (repo_list_pull_requests_by_repo_or_project e a h)
          = h @ [Req ''connection.getGitApi'' a [],
                 Req ''gitApi.getPullRequests'' a
                   [jstr (repositoryId a), JObj [(''status'', lookup_json (pr_list_status (status a)))],
                    jstr (project a), JUndefined, JNum (case skip a of None \<Rightarrow> 0 | Some s \<Rightarrow> s),
                    JNum (top_or 100 a)]])"
proof -
  have vals: "list_all (\<lambda>(k, v). v \<noteq> 0) thread_statusMap" "list_all (\<lambda>(k, v). v \<noteq> 0) stageUpdateMap"
    by (simp_all add: thread_statusMap_def stageUpdateMap_def)
  have nz1: "v \<noteq> 0" if "map_of thread_statusMap k = Some v"
    using map_of_SomeD [OF that] vals(1) by (auto simp: list_all_iff)
  have nz2: "v \<noteq> 0" if "map_of stageUpdateMap k = Some v"
    using map_of_SomeD [OF that] vals(2) by (auto simp: list_all_iff)
  have r1: "map_of thread_statusMap k = Some v \<longrightarrow> thread_update_status (Some k) = Declared v"
    by (simp add: thread_update_status_def key_of_def js_lookup_declared)
  have r2: "map_of pr_update_statusMap k = Some v \<longrightarrow> pr_update_status k = Declared v"
    by (simp add: pr_update_status_def js_lookup_declared)
  have r3: "map_of workitem_expandMap k = Some v \<longrightarrow> workitem_expand (Some k) = Declared v"
    by (simp add: workitem_expand_def key_of_def js_lookup_declared)
  have r4: "map_of query_expandMap k = Some v \<longrightarrow> query_expand (Some k) = Declared v"
    by (simp add: query_expand_def key_of_def js_lookup_declared)
  have d1: "map_of pr_list_statusMap k = Some v \<and> v \<noteq> 0 \<longrightarrow> pr_list_status (Some k) = Declared v"
    by (simp add: pr_list_status_def js_lookup_declared or_default_def)
  have d2: "map_of thread_statusMap k = Some v \<longrightarrow> thread_create_status (Some k) = Declared v"
    using nz1 by (simp add: thread_create_status_def key_of_def js_lookup_declared or_default_def)
  have d3: "map_of stageUpdateMap k = Some v \<longrightarrow> stage_state (Some k) = Declared v"
    using nz2 by (simp add: stage_state_def key_of_def js_lookup_declared or_default_def)
  have undecl: "k \<notin> set object_prototype_names \<longrightarrow>
        (map_of pr_list_statusMap k = None \<longrightarrow> pr_list_status (Some k) = Declared 1)
        \<and> (map_of thread_statusMap k = None \<longrightarrow> thread_create_status (Some k) = Declared 1)
        \<and> (map_of stageUpdateMap k = None \<longrightarrow> stage_state (Some k) = Declared 1)
        \<and> (map_of thread_statusMap k = None \<longrightarrow> thread_update_status (Some k) = Undefined)
        \<and> (map_of pr_update_statusMap k = None \<longrightarrow> pr_update_status k = Undefined)
        \<and> (map_of workitem_expandMap k = None \<longrightarrow> workitem_expand (Some k) = Undefined)
        \<and> (map_of query_expandMap k = None \<longrightarrow> query_expand (Some k) = Undefined)"
    by (simp add: pr_list_status_def thread_create_status_def stage_state_def thread_update_status_def
        pr_update_status_def workitem_expand_def query_expand_def key_of_def js_lookup_undeclared
        or_default_def)
  have a1: "pr_list_status None = Declared 1" by code_simp
  have a2: "thread_create_status None = Declared 1" by code_simp
  have a3: "workitem_expand None = Undefined" by code_simp
  have j1: "lookup_json (Declared v) = JNum v" by (simp add: lookup_json_def)
  have j2: "lookup_json Undefined = JUndefined" by (simp add: lookup_json_def)
  show ?thesis by (intro conjI r1 r2 r3 r4 d1 d2 d3 undecl a1 a2 a3 j1 j2 handlers_pass_lookup)
qed

theorem lookup_tables_witness:
  "map_of thread_statusMap ''closed'' = Some 4 \<and> thread_update_status (Some ''closed'') = Declared 4
   \<and> map_of workitem_expandMap ''none'' = Some 0 \<and> workitem_expand (Some ''none'') = Declared 0
   \<and> map_of pr_list_statusMap ''Completed'' = Some 3 \<and> pr_list_status (Some ''Completed'') = Declared 3
   \<and> ''Open'' \<notin> set object_prototype_names \<and> map_of pr_list_statusMap ''Open'' = None
   \<and> pr_list_status (Some ''Open'') = Declared 1
   \<and> map_of pr_update_statusMap ''completed'' = Some 3 \<and> pr_update_status ''completed'' = Declared 3
   \<and> map_of query_expandMap ''wiql'' = Some 1 \<and> query_expand (Some ''wiql'') = Declared 1
   \<and> map_of stageUpdateMap ''Cancel'' = Some 2 \<and> stage_state (Some ''Cancel'') = Declared 2
   \<and> thread_create_status (Some ''closed'') = Declared 4
   \<and> map_of thread_statusMap ''Open'' = None \<and> map_of stageUpdateMap ''Open'' = None
   \<and> map_of pr_update_statusMap ''Open'' = None \<and> map_of workitem_expandMap ''Open'' = None
   \<and> map_of query_expandMap ''Open'' = None
   \<and> thread_create_status (Some ''Open'') = Declared 1 \<and> stage_state (Some ''Open'') = Declared 1
   \<and> thread_update_status (Some ''Open'') = Undefined \<and> pr_update_status ''Open'' = Undefined
   \<and> workitem_expand (Some ''Open'') = Undefined \<and> query_expand (Some ''Open'') = Undefined
   \<and> json_op (failing_at 9) [] (Req ''connection.getWorkItemTrackingApi'' (no_args\<lparr>expand := Some ''none''\<rparr>) [])
       = Return JNull
   \<and> snd (wit_get_work_item (failing_at 9) (no_args\<lparr>expand := Some ''none''\<rparr>) [])
       = [Req ''connection.getWorkItemTrackingApi'' (no_args\<lparr>expand := Some ''none''\<rparr>) [],
          Req ''witApi.getWorkItem'' (no_args\<lparr>expand := Some ''none''\<rparr>)
            [JUndefined, JUndefined, JUndefined, JNum 0, JUndefined]]"
proof -
  let ?a = "no_args\<lparr>expand := Some ''none''\<rparr>"
  have a: "map_of thread_statusMap ''closed'' = Some 4" by code_simp
  have b: "map_of workitem_expandMap ''none'' = Some 0" by code_simp
  have c: "map_of pr_list_statusMap ''Completed'' = Some 3 \<and> (3::int) \<noteq> 0" by code_simp
  have d: "''Open'' \<notin> set object_prototype_names" by code_simp
  have e: "map_of pr_list_statusMap ''Open'' = None" by code_simp
  have a5: "map_of pr_update_statusMap ''completed'' = Some 3" by code_simp
  have a6: "map_of query_expandMap ''wiql'' = Some 1" by code_simp
  have a7: "map_of stageUpdateMap ''Cancel'' = Some 2" by code_simp
  have n1: "map_of thread_statusMap ''Open'' = None" by code_simp
  have n2: "map_of stageUpdateMap ''Open'' = None" by code_simp
  have n3: "map_of pr_update_statusMap ''Open'' = None" by code_simp
  have n4: "map_of workitem_expandMap ''Open'' = None" by code_simp
  have n5: "map_of query_expandMap ''Open'' = None" by code_simp
  have g1: "json_op (failing_at 9) [] (Req ''connection.getWorkItemTrackingApi'' ?a []) = Return JNull"
    by (simp add: failing_at_def)
  note t1 = lookup_tables [where k = "''closed''" and v = 4 and e = "failing_at 9" and h = "[]" and a = ?a and c = JNull]
  note t2 = lookup_tables [where k = "''none''" and v = 0 and e = "failing_at 9" and h = "[]" and a = ?a and c = JNull]
  note t3 = lookup_tables [where k = "''Completed''" and v = 3 and e = "failing_at 9" and h = "[]" and a = ?a and c = JNull]
  note t4 = lookup_tables [where k = "''Open''" and v = 0 and e = "failing_at 9" and h = "[]" and a = ?a and c = JNull]
  note t5 = lookup_tables [where k = "''completed''" and v = 3 and e = "failing_at 9" and h = "[]" and a = ?a and c = JNull]
  note t6 = lookup_tables [where k = "''wiql''" and v = 1 and e = "failing_at 9" and h = "[]" and a = ?a and c = JNull]
  note t7 = lookup_tables [where k = "''Cancel''" and v = 2 and e = "failing_at 9" and h = "[]" and a = ?a and c = JNull]
  have "map_of thread_statusMap ''closed'' = Some 4 \<longrightarrow> thread_update_status (Some ''closed'') = Declared 4"
    by (insert t1, elim conjE, assumption)
  then have w1: "thread_update_status (Some ''closed'') = Declared 4" using a by (rule mp)
  have "map_of workitem_expandMap ''none'' = Some 0 \<longrightarrow> workitem_expand (Some ''none'') = Declared 0"
    by (insert t2, elim conjE, assumption)
  then have w2: "workitem_expand (Some ''none'') = Declared 0" using b by (rule mp)
  have "map_of pr_list_statusMap ''Completed'' = Some 3 \<and> (3::int) \<noteq> 0
      \<longrightarrow> pr_list_status (Some ''Completed'') = Declared 3"
    by (insert t3, elim conjE, assumption)
  then have w3: "pr_list_status (Some ''Completed'') = Declared 3" using c by (rule mp)
  have "map_of pr_update_statusMap ''completed'' = Some 3 \<longrightarrow> pr_update_status ''completed'' = Declared 3"
    by (insert t5, elim conjE, assumption)
  then have w5: "pr_update_status ''completed'' = Declared 3" using a5 by (rule mp)
  have "map_of query_expandMap ''wiql'' = Some 1 \<longrightarrow> query_expand (Some ''wiql'') = Declared 1"
    by (insert t6, elim conjE, assumption)
  then have w6: "query_expand (Some ''wiql'') = Declared 1" using a6 by (rule mp)
  have "map_of stageUpdateMap ''Cancel'' = Some 2 \<longrightarrow> stage_state (Some ''Cancel'') = Declared 2"
    by (insert t7, elim conjE, assumption)
  then have w7: "stage_state (Some ''Cancel'') = Declared 2" using a7 by (rule mp)
  have "map_of thread_statusMap ''closed'' = Some 4 \<longrightarrow> thread_create_status (Some ''closed'') = Declared 4"
    by (insert t1, elim conjE, assumption)
  then have w8: "thread_create_status (Some ''closed'') = Declared 4" using a by (rule mp)
  have "''Open'' \<notin> set object_prototype_names \<longrightarrow>
        (map_of pr_list_statusMap ''Open'' = None \<longrightarrow> pr_list_status (Some ''Open'') = Declared 1)
        \<and> (map_of thread_statusMap ''Open'' = None \<longrightarrow> thread_create_status (Some ''Open'') = Declared 1)
        \<and> (map_of stageUpdateMap ''Open'' = None \<longrightarrow> stage_state (Some ''Open'') = Declared 1)
        \<and> (map_of thread_statusMap ''Open'' = None \<longrightarrow> thread_update_status (Some ''Open'') = Undefined)
        \<and> (map_of pr_update_statusMap ''Open'' = None \<longrightarrow> pr_update_status ''Open'' = Undefined)
        \<and> (map_of workitem_expandMap ''Open'' = None \<longrightarrow> workitem_expand (Some ''Open'') = Undefined)
        \<and> (map_of query_expandMap ''Open'' = None \<longrightarrow> query_expand (Some ''Open'') = Undefined)"
    by (insert t4, elim conjE, assumption)
  then have u: "(map_of pr_list_statusMap ''Open'' = None \<longrightarrow> pr_list_status (Some ''Open'') = Declared 1)
        \<and> (map_of thread_statusMap ''Open'' = None \<longrightarrow> thread_create_status (Some ''Open'') = Declared 1)
        \<and> (map_of stageUpdateMap ''Open'' = None \<longrightarrow> stage_state (Some ''Open'') = Declared 1)
        \<and> (map_of thread_statusMap ''Open'' = None \<longrightarrow> thread_update_status (Some ''Open'') = Undefined)
        \<and> (map_of pr_update_statusMap ''Open'' = None \<longrightarrow> pr_update_status ''Open'' = Undefined)
        \<and> (map_of workitem_expandMap ''Open'' = None \<longrightarrow> workitem_expand (Some ''Open'') = Undefined)
        \<and> (map_of query_expandMap ''Open'' = None \<longrightarrow> query_expand (Some ''Open'') = Undefined)"
    using d by (rule mp)
  have w4: "pr_list_status (Some ''Open'') = Declared 1" using u e by blast
  have u1: "thread_create_status (Some ''Open'') = Declared 1" using u n1 by blast
  have u2: "stage_state (Some ''Open'') = Declared 1" using u n2 by blast
  have u3: "thread_update_status (Some ''Open'') = Undefined" using u n1 by blast
  have u4: "pr_update_status ''Open'' = Undefined" using u n3 by blast
  have u5: "workitem_expand (Some ''Open'') = Undefined" using u n4 by blast
  have u6: "query_expand (Some ''Open'') = Undefined" using u n5 by blast
  have "json_op (failing_at 9) [] (Req ''connection.getWorkItemTrackingApi'' ?a []) = Return JNull \<longrightarrow>
      snd (wit_get_work_item (failing_at 9) ?a [])
      = [] @ [Req ''connection.getWorkItemTrackingApi'' ?a [],
              Req ''witApi.getWorkItem'' ?a
                [arg ?a ''id'', arg ?a ''fields'', JUndefined, lookup_json (workitem_expand (expand ?a)),
                 jstr (project ?a)]]"
    by (insert t1, elim conjE, assumption)
  then have "snd (wit_get_work_item (failing_at 9) ?a [])
      = [] @ [Req ''connection.getWorkItemTrackingApi'' ?a [],
              Req ''witApi.getWorkItem'' ?a
                [arg ?a ''id'', arg ?a ''fields'', JUndefined, lookup_json (workitem_expand (expand ?a)),
                 jstr (project ?a)]]"
    using g1 by (rule mp)
  then have g2: "snd (wit_get_work_item (failing_at 9) ?a [])
      = [Req ''connection.getWorkItemTrackingApi'' ?a [],
         Req ''witApi.getWorkItem'' ?a [JUndefined, JUndefined, JUndefined, JNum 0, JUndefined]]"
    by (simp add: w2 arg_def jstr_def no_args_def lookup_json_def)
  show ?thesis
    by (intro conjI a b c [THEN conjunct1] d e w1 w2 w3 w4 a5 w5 a6 w6 a7 w7 w8 n1 n2 n3 n4 n5
        u1 u2 u3 u4 u5 u6 g1 g2)
qed

text \<open>
  C4 as stated fails: an undeclared thread status on update and an undeclared expand
  value are looked up to \<open>undefined\<close>, no default takes their place, and the undeclared
  key \<open>constructor\<close> is looked up to a member of \<open>Object.prototype\<close>.
\<close>

theorem lookup_without_default_counterexample:
  "thread_update_status (Some ''resolved'') = Undefined
   \<and> workitem_expand (Some ''everything'') = Undefined
   \<and> pr_list_status (Some ''constructor'') = Inherited"
  by code_simp

text \<open>
  The declared key \<open>NotSet\<close> of the pull-request status has the value 0, which is falsy:
  \<open>statusMap[status] || 1\<close> turns it into 1.
\<close>

lemma pr_list_status_NotSet: "pr_list_status (Some ''NotSet'') = Declared 1" by code_simp

section \<open>Properties of the bulk branches\<close>









section \<open>Properties of the connection provider\<close>

lemma run_snoc: "run c (evs @ [ev]) = step (run c evs) ev"
  by (simp add: run_def)

lemma run_invariant:
  "config (run (new_client cfg) evs) = cfg
   \<and> clientPromise (run (new_client cfg) evs)
       = (if Invoke \<in> set evs then Some (fst (createPatClient cfg 0)) else None)
   \<and> created (run (new_client cfg) evs) = (if Invoke \<in> set evs then 1 else 0)
   \<and> constructed (run (new_client cfg) evs)
       = (if Invoke \<in> set evs then snd (createPatClient cfg 0) else 0)
   \<and> list_all (\<lambda>p. p = fst (createPatClient cfg 0))
         (received (run (new_client cfg) evs) @ waiting (run (new_client cfg) evs))
   \<and> length (received (run (new_client cfg) evs)) + length (waiting (run (new_client cfg) evs))
       = length (filter (\<lambda>ev. ev = Invoke) evs)"
proof (induction evs rule: rev_induct)
  case Nil
  show ?case by (simp add: run_def new_client_def)
next
  case (snoc ev evs)
  define c where "c = run (new_client cfg) evs"
  note ih = snoc.IH [folded c_def]
  show ?case
  proof (cases ev)
    case Invoke
    show ?thesis
    proof (cases "Invoke \<in> set evs")
      case True
      then show ?thesis using ih Invoke
        by (simp add: run_snoc c_def [symmetric] getClient_def)
    next
      case False
      then show ?thesis using ih Invoke
        by (auto simp: run_snoc c_def [symmetric] getClient_def split: prod.splits)
    qed
  next
    case Resume
    show ?thesis
    proof (cases "waiting c")
      case Nil
      then show ?thesis using ih Resume by (simp add: run_snoc c_def [symmetric])
    next
      case (Cons p ps)
      then show ?thesis using ih Resume by (simp add: run_snoc c_def [symmetric])
    qed
  qed
qed

lemma constructed_le: "snd (createPatClient cfg 0) \<le> 1"
  by (simp add: createPatClient_def)

text \<open>
  C7. The body of \<open>getClient\<close> has no \<open>await\<close> before it assigns \<open>clientPromise\<close>, so the
  test and the assignment of one call are not interleaved with another call; callers
  interleave only between invoking the accessor and resuming with the value. For every
  sequence of invocations and resumptions, \<open>createPatClient\<close> has been called once as soon
  as there is an invocation, at most one \<open>WebApi\<close> has been constructed (exactly one under
  a configuration with a token and a URL), and every caller, resumed or still waiting,
  holds the memoised promise: with such a configuration all receive the one \<open>WebApi\<close>
  object.
\<close>

theorem getClient_single_flight:
  "created (run (new_client cfg) evs) = (if Invoke \<in> set evs then 1 else 0)
   \<and> constructed (run (new_client cfg) evs) \<le> 1
   \<and> (Invoke \<in> set evs \<and> personalAccessToken cfg \<noteq> [] \<and> organizationUrl cfg \<noteq> []
        \<longrightarrow> constructed (run (new_client cfg) evs) = 1)
   \<and> length (received (run (new_client cfg) evs)) + length (waiting (run (new_client cfg) evs))
       = length (filter (\<lambda>ev. ev = Invoke) evs)
   \<and> (p \<in> set (received (run (new_client cfg) evs) @ waiting (run (new_client cfg) evs))
        \<longrightarrow> clientPromise (run (new_client cfg) evs) = Some p
            \<and> p = fst (createPatClient cfg 0)
            \<and> (personalAccessToken cfg \<noteq> [] \<and> organizationUrl cfg \<noteq> []
                \<longrightarrow> p = Return \<lparr>instance_no = 0, api_url = organizationUrl cfg,
                                  api_token = personalAccessToken cfg\<rparr>))"
proof -
  note inv = run_invariant [of cfg evs]
  have a: "created (run (new_client cfg) evs) = (if Invoke \<in> set evs then 1 else 0)"
    using inv by blast
  have b: "constructed (run (new_client cfg) evs) \<le> 1"
    using inv constructed_le [of cfg] by (auto split: if_splits)
  have b': "Invoke \<in> set evs \<and> personalAccessToken cfg \<noteq> [] \<and> organizationUrl cfg \<noteq> []
        \<longrightarrow> constructed (run (new_client cfg) evs) = 1"
    using inv by (simp add: createPatClient_def)
  have c: "length (received (run (new_client cfg) evs)) + length (waiting (run (new_client cfg) evs))
       = length (filter (\<lambda>ev. ev = Invoke) evs)"
    using inv by blast
  have d: "p \<in> set (received (run (new_client cfg) evs) @ waiting (run (new_client cfg) evs))
        \<longrightarrow> clientPromise (run (new_client cfg) evs) = Some p
            \<and> p = fst (createPatClient cfg 0)
            \<and> (personalAccessToken cfg \<noteq> [] \<and> organizationUrl cfg \<noteq> []
                \<longrightarrow> p = Return \<lparr>instance_no = 0, api_url = organizationUrl cfg,
                                  api_token = personalAccessToken cfg\<rparr>)"
  proof
    assume m: "p \<in> set (received (run (new_client cfg) evs) @ waiting (run (new_client cfg) evs))"
    have all: "list_all (\<lambda>p. p = fst (createPatClient cfg 0))
         (received (run (new_client cfg) evs) @ waiting (run (new_client cfg) evs))"
      using inv by blast
    then have p: "p = fst (createPatClient cfg 0)" using m by (simp add: list_all_iff)
    have "received (run (new_client cfg) evs) @ waiting (run (new_client cfg) evs) \<noteq> []"
      using m by auto
    then have "length (filter (\<lambda>ev. ev = Invoke) evs) \<noteq> 0" using c by auto
    then have "Invoke \<in> set evs" by (auto simp: filter_empty_conv)
    then have cp: "clientPromise (run (new_client cfg) evs) = Some p" using inv p by simp
    show "clientPromise (run (new_client cfg) evs) = Some p
            \<and> p = fst (createPatClient cfg 0)
            \<and> (personalAccessToken cfg \<noteq> [] \<and> organizationUrl cfg \<noteq> []
                \<longrightarrow> p = Return \<lparr>instance_no = 0, api_url = organizationUrl cfg,
                                  api_token = personalAccessToken cfg\<rparr>)"
      using cp p by (simp add: createPatClient_def)
  qed
  show ?thesis by (intro conjI a b b' c d)
qed

theorem getClient_single_flight_witness:
  "Return example_api
     \<in> set (received (run (new_client example_config) [Invoke, Invoke, Resume, Invoke, Resume, Resume])
            @ waiting (run (new_client example_config) [Invoke, Invoke, Resume, Invoke, Resume, Resume]))
   \<and> personalAccessToken example_config \<noteq> [] \<and> organizationUrl example_config \<noteq> []
   \<and> received (run (new_client example_config) [Invoke, Invoke, Resume, Invoke, Resume, Resume])
       = [Return example_api, Return example_api, Return example_api]
   \<and> created (run (new_client example_config) [Invoke, Invoke, Resume, Invoke, Resume, Resume]) = 1
   \<and> clientPromise (run (new_client example_config) [Invoke, Invoke, Resume, Invoke, Resume, Resume])
       = Some (Return example_api)"
proof -
  let ?evs = "[Invoke, Invoke, Resume, Invoke, Resume, Resume]"
  have r: "received (run (new_client example_config) ?evs)
       = [Return example_api, Return example_api, Return example_api]"
    by code_simp
  have w: "waiting (run (new_client example_config) ?evs) = []"
    by code_simp
  have m: "Return example_api
     \<in> set (received (run (new_client example_config) ?evs) @ waiting (run (new_client example_config) ?evs))"
    by (simp add: r w)
  have v: "personalAccessToken example_config \<noteq> [] \<and> organizationUrl example_config \<noteq> []"
    by (simp add: example_config_def)
  have i: "Invoke \<in> set ?evs" by simp
  note t = getClient_single_flight [where cfg = example_config and evs = ?evs and p = "Return example_api"]
  have c: "created (run (new_client example_config) ?evs) = 1"
    using t [THEN conjunct1] i by simp
  have p: "clientPromise (run (new_client example_config) ?evs) = Some (Return example_api)"
    using t m by blast
  show ?thesis by (intro conjI m v [THEN conjunct1] v [THEN conjunct2] r c p)
qed

end
